theory Spec2Isabelle
  imports Main "HOL-Library.Monad_Syntax" "HOL-Library.Multiset"
begin

section \<open>The symptom selector of Health-AI: search, ranking and selection state\<close>

text \<open>
  The development embeds the component \<^verbatim>\<open>SymptomSelector\<close> (the second document of
  \<^verbatim>\<open>src/components/ResultDashboard.tsx\<close>, lines 781-1255) and the way
  \<^verbatim>\<open>src/App.tsx\<close> mounts it. The functions keep the names of the source:
  \<^verbatim>\<open>levenshteinDistance\<close>, \<^verbatim>\<open>getMatchScore\<close>, \<^verbatim>\<open>toggleSymptom\<close>,
  \<^verbatim>\<open>handleConfirm\<close>, \<^verbatim>\<open>clearSearch\<close>, \<^verbatim>\<open>toggleCategory\<close> and
  \<^verbatim>\<open>displayedCategories\<close>, over the tables \<^verbatim>\<open>SYNONYMS\<close> and \<^verbatim>\<open>CATEGORIES\<close>.
\<close>

subsection \<open>Strings and arrays of the JavaScript runtime\<close>

text \<open>
  A JavaScript string is a sequence of UTF-16 code units; a code unit is modelled as a
  natural number, so every string of the program is a value of \<open>jsstring\<close>. The literals
  of the source are ASCII and are written \<open>str ''...''\<close>.
\<close>

type_synonym codeunit = nat
type_synonym jsstring = "codeunit list"

definition str :: "string \<Rightarrow> jsstring" where
  "str s = map of_char s"

text \<open>
  \<^verbatim>\<open>s.charAt(i)\<close>: the string of the one code unit at index \<open>i\<close>, the empty string
  out of range.
\<close>

definition charAt :: "jsstring \<Rightarrow> nat \<Rightarrow> jsstring" where
  "charAt s i = (if i < length s then [s ! i] else [])"

text \<open>
  \<^verbatim>\<open>t.startsWith(q)\<close> and \<^verbatim>\<open>t.includes(q)\<close>: \<open>q\<close> is a prefix of \<open>t\<close>, respectively
  occurs in \<open>t\<close> at some position
  (\<open>includes\<close> is a keyword of Isabelle, hence \<open>includes_js\<close>).
\<close>

fun startsWith :: "jsstring \<Rightarrow> jsstring \<Rightarrow> bool" where
  "startsWith t [] = True"
| "startsWith [] (c # q) = False"
| "startsWith (d # t) (c # q) = (d = c \<and> startsWith t q)"

fun includes_js :: "jsstring \<Rightarrow> jsstring \<Rightarrow> bool" where
  "includes_js [] q = (q = [])"
| "includes_js (d # t) q = (startsWith (d # t) q \<or> includes_js t q)"

text \<open>
  \<^verbatim>\<open>s.trim()\<close> removes white space and line terminators from both ends. The code units
  it removes are those of ECMA-262: TAB, LF, VT, FF, CR, SPACE, NBSP, U+1680,
  U+2000 to U+200A, U+2028, U+2029, U+202F, U+205F, U+3000 and U+FEFF.
\<close>

definition isWhiteSpace :: "codeunit \<Rightarrow> bool" where
  "isWhiteSpace c = (c \<in> {9, 10, 11, 12, 13, 32, 160, 5760, 8232, 8233, 8239, 8287, 12288, 65279}
     \<or> (8192 \<le> c \<and> c \<le> 8202))"

definition trim :: "jsstring \<Rightarrow> jsstring" where
  "trim s = rev (dropWhile isWhiteSpace (rev (dropWhile isWhiteSpace s)))"

text \<open>
  \<^verbatim>\<open>s.toLowerCase()\<close> depends on the Unicode case tables of the runtime, which are not
  part of the repository. Every function that calls it takes it as the parameter
  \<open>toLowerCase\<close>, so each general theorem below holds for whatever the runtime's tables
  are. On ASCII strings, which is what the concrete scenarios use, the runtime's
  function is \<open>asciiToLowerCase\<close>: it moves \<open>A\<close>-\<open>Z\<close> to \<open>a\<close>-\<open>z\<close> and nothing else.
\<close>

definition asciiToLowerCase :: "jsstring \<Rightarrow> jsstring" where
  "asciiToLowerCase s = map (\<lambda>c. if 65 \<le> c \<and> c \<le> 90 then c + 32 else c) s"

text \<open>
  Arrays. A read of an index that was never written yields \<^verbatim>\<open>undefined\<close> in JavaScript:
  on a missing row the next index access throws a TypeError, on a missing cell the
  arithmetic continues with NaN. Both are the value \<open>None\<close> of the model, so that a
  result \<open>Some n\<close> says that neither happened. A write at an index below the length
  replaces the element and a write at the length appends; a write further out would
  leave a hole in the array and is \<open>None\<close> as well.
\<close>

definition get_row :: "nat list list \<Rightarrow> nat \<Rightarrow> nat list option" where
  "get_row matrix i = (if i < length matrix then Some (matrix ! i) else None)"

definition get_cell :: "nat list list \<Rightarrow> nat \<Rightarrow> nat \<Rightarrow> nat option" where
  "get_cell matrix i j =
     do { row \<leftarrow> get_row matrix i; if j < length row then Some (row ! j) else None }"

definition put :: "'a list \<Rightarrow> nat \<Rightarrow> 'a \<Rightarrow> 'a list option" where
  "put xs i v = (if i < length xs then Some (xs[i := v])
     else if i = length xs then Some (xs @ [v]) else None)"

definition set_cell :: "nat list list \<Rightarrow> nat \<Rightarrow> nat \<Rightarrow> nat \<Rightarrow> nat list list option" where
  "set_cell matrix i j v =
     do { row \<leftarrow> get_row matrix i; row' \<leftarrow> put row j v; put matrix i row' }"

text \<open>
  A \<^verbatim>\<open>for\<close> loop over a fixed range of indices runs its body once per index, in order,
  on the state the previous round left, and stops at the first failure.
  \<^verbatim>\<open>xs.map(f)\<close> with a callback that may fail is \<open>traverse\<close>.
\<close>

fun for_each :: "nat list \<Rightarrow> (nat \<Rightarrow> 's \<Rightarrow> 's option) \<Rightarrow> 's \<Rightarrow> 's option" where
  "for_each [] body s = Some s"
| "for_each (i # is) body s =
     (case body i s of None \<Rightarrow> None | Some s' \<Rightarrow> for_each is body s')"

fun traverse :: "('a \<Rightarrow> 'b option) \<Rightarrow> 'a list \<Rightarrow> 'b list option" where
  "traverse f [] = Some []"
| "traverse f (x # xs) = do { y \<leftarrow> f x; ys \<leftarrow> traverse f xs; Some (y # ys) }"

text \<open>
  A \<^verbatim>\<open>Set<string>\<close> keeps its elements in insertion order without repetition; it is a
  list, and \<^verbatim>\<open>has\<close>, \<^verbatim>\<open>add\<close>, \<^verbatim>\<open>delete\<close> and \<^verbatim>\<open>size\<close> are the four functions below.
\<close>

definition set_has :: "'a list \<Rightarrow> 'a \<Rightarrow> bool" where
  "set_has s x = (x \<in> set s)"

definition set_add :: "'a list \<Rightarrow> 'a \<Rightarrow> 'a list" where
  "set_add s x = (if x \<in> set s then s else s @ [x])"

definition set_delete :: "'a list \<Rightarrow> 'a \<Rightarrow> 'a list" where
  "set_delete s x = removeAll x s"

definition set_size :: "'a list \<Rightarrow> nat" where
  "set_size s = length (remdups s)"

subsection \<open>The synonym table (lines 791-828)\<close>

text \<open>
  \<^verbatim>\<open>SYNONYMS[item]\<close> is the array registered under the key, or \<^verbatim>\<open>undefined\<close>: the lookup
  \<open>map_of SYNONYMS item\<close>. (The items looked up are those of \<^verbatim>\<open>CATEGORIES\<close>; none of them
  is the name of a property that every JavaScript object inherits.)
\<close>

definition SYNONYMS :: "(jsstring \<times> jsstring list) list" where
  "SYNONYMS = [
     (str ''Fever'', map str [''high temperature'', ''hot'', ''pyrexia'', ''burning up'',
         ''chills'', ''feverish'', ''feeling hot'']),
     (str ''Fatigue'', map str [''tired'', ''exhaustion'', ''weak'', ''weary'', ''lethargy'',
         ''drained'', ''no energy'', ''sleepy'', ''burnout'']),
     (str ''Nausea'', map str [''queasy'', ''sick to stomach'', ''urges to vomit'',
         ''upset stomach'', ''nauseous'', ''groggy'']),
     (str ''Vomiting'', map str [''throwing up'', ''puke'', ''barf'', ''sickness'',
         ''retching'', ''heaving'']),
     (str ''Abdominal pain'', map str [''stomach ache'', ''belly pain'', ''tummy ache'',
         ''gut pain'', ''cramps'', ''stomach pain'', ''pain in stomach'', ''gastritis'']),
     (str ''Diarrhea'', map str [''runny stool'', ''loose stools'', ''the runs'', ''poop'',
         ''liquid stool'', ''dysentery'', ''bowel issues'']),
     (str ''Shortness of breath'', map str [''dyspnea'', ''hard to breathe'', ''winded'',
         ''gasping'', ''cant breathe'', ''breathless'', ''short breath'', ''air hunger'']),
     (str ''Edema'', map str [''swelling'', ''puffy'', ''fluid retention'', ''swollen'',
         ''bloated'', ''puffiness'']),
     (str ''Headache'', map str [''migraine'', ''head pain'', ''throbbing head'',
         ''splitting headache'', ''tension headache'', ''head pressure'']),
     (str ''Insomnia'', map str [''cant sleep'', ''sleepless'', ''awake'',
         ''trouble sleeping'', ''restless'', ''waking up'']),
     (str ''Weight loss'', map str [''lost weight'', ''skinny'', ''thin'', ''shedding pounds'',
         ''anorexia'']),
     (str ''Hypertension'', map str [''high blood pressure'', ''bp'', ''elevated pressure'']),
     (str ''Chest pain'', map str [''angina'', ''tight chest'', ''pressure'', ''heart pain'',
         ''chest tightness'', ''heavy chest'']),
     (str ''Rash'', map str [''spots'', ''hives'', ''breakout'', ''skin irritation'',
         ''itchy skin'', ''redness'', ''eczema'', ''dermatitis'', ''acne'']),
     (str ''Joint pain'', map str [''arthritis'', ''stiff joints'', ''aching joints'',
         ''knee pain'', ''elbow pain'', ''wrist pain'', ''hip pain'', ''gout'']),
     (str ''Cough'', map str [''coughing'', ''hack'', ''phlegm'', ''dry cough'', ''wet cough'',
         ''barking cough'']),
     (str ''Sore throat'', map str [''throat pain'', ''hurts to swallow'', ''pharyngitis'',
         ''scratchy throat'', ''strep'', ''tonsillitis'']),
     (str ''Dizziness'', map str [''lightheaded'', ''spinning'', ''vertigo'', ''unsteady'',
         ''faint'', ''woozy'', ''balance issues'']),
     (str ''Palpitations'', map str [''racing heart'', ''heart skip'', ''fluttering'',
         ''thumping'', ''rapid heartbeat'', ''heart pounding'']),
     (str ''Tremors'', map str [''shaking'', ''shivers'', ''twitching'', ''trembling'',
         ''shakes'']),
     (str ''Vision changes'', map str [''blurry vision'', ''seeing double'', ''vision loss'',
         ''spots in eyes'', ''blindness'', ''eye strain'']),
     (str ''Confusion'', map str [''disoriented'', ''brain fog'', ''mixed up'', ''delirium'',
         ''memory loss'', ''forgetful'']),
     (str ''Numbness'', map str [''tingling'', ''pins and needles'', ''loss of sensation'',
         ''asleep limb'', ''paresthesia'']),
     (str ''Constipation'', map str [''cant poop'', ''hard stool'', ''blocked'', ''irregular'',
         ''strained bowel'']),
     (str ''Indigestion'', map str [''heartburn'', ''acid reflux'', ''gerd'', ''burping'',
         ''gas'', ''bloating'']),
     (str ''Muscle ache'', map str [''body ache'', ''sore muscles'', ''painful muscles'',
         ''myalgia'', ''cramps'']),
     (str ''Runny nose'', map str [''snot'', ''boogers'', ''nasal drip'', ''rhinorrhea'',
         ''stuffy nose'']),
     (str ''Sneezing'', map str [''achoo'', ''sneezes'', ''allergy'']),
     (str ''Itching'', map str [''scratchy'', ''itch'', ''pruritus'']),
     (str ''Watery eyes'', map str [''tearing'', ''crying'', ''teary'', ''red eyes'']),
     (str ''Chills'', map str [''shivering'', ''cold'', ''goosebumps'', ''feeling cold'']),
     (str ''Sweating'', map str [''perspiration'', ''sweaty'', ''clammy'', ''hot flashes'']),
     (str ''Night sweats'', map str [''sweating at night'', ''soaked sheets'']),
     (str ''Anxiety'', map str [''nervous'', ''worry'', ''panic'', ''stress'', ''uneasy'',
         ''fear'', ''tension'']),
     (str ''Depression'', map str [''sad'', ''down'', ''hopeless'', ''unhappy'', ''blues'',
         ''low mood'']),
     (str ''Mood swings'', map str [''emotional'', ''irritable'', ''bipolar''])]"

subsection \<open>Edit distance (lines 831-857)\<close>

text \<open>
  The body of the inner loop: cell \<open>(i, j)\<close> is the diagonal neighbour when the two
  code units agree, and one more than the least of the three neighbours otherwise.
\<close>

definition fill_cell :: "jsstring \<Rightarrow> jsstring \<Rightarrow> nat \<Rightarrow> nat \<Rightarrow> nat list list \<Rightarrow> nat list list option" where
  "fill_cell a b i j matrix =
     (if charAt b (i - 1) = charAt a (j - 1) then do {
        d \<leftarrow> get_cell matrix (i - 1) (j - 1);
        set_cell matrix i j d
      } else do {
        d \<leftarrow> get_cell matrix (i - 1) (j - 1);
        l \<leftarrow> get_cell matrix i (j - 1);
        u \<leftarrow> get_cell matrix (i - 1) j;
        set_cell matrix i j (min (min (d + 1) (l + 1)) (u + 1))
      })"

definition levenshteinDistance :: "jsstring \<Rightarrow> jsstring \<Rightarrow> nat option" where
  "levenshteinDistance a b = do {
     m1 \<leftarrow> for_each [0..<Suc (length b)] (\<lambda>i matrix. put matrix i [i]) [];
     m2 \<leftarrow> for_each [0..<Suc (length a)] (\<lambda>j matrix. set_cell matrix 0 j j) m1;
     m3 \<leftarrow> for_each [1..<Suc (length b)] (\<lambda>i.
             for_each [1..<Suc (length a)] (\<lambda>j. fill_cell a b i j)) m2;
     get_cell m3 (length b) (length a)
   }"

subsection \<open>Match score (lines 860-886)\<close>

definition getMatchScore :: "(jsstring \<Rightarrow> jsstring) \<Rightarrow> jsstring \<Rightarrow> jsstring \<Rightarrow> int option" where
  "getMatchScore toLowerCase text query =
     (let t = toLowerCase text; q = toLowerCase query in
      if t = q then Some 100
      else if startsWith t q then Some 80
      else if includes_js t q then Some 60
      else if length q > 2 then do {
        distance \<leftarrow> levenshteinDistance q t;
        let allowedErrors = (if length q > 5 then 2 else 1);
        if distance \<le> allowedErrors then Some (50 - int distance * 10) else Some 0
      }
      else Some 0)"

subsection \<open>The taxonomy (lines 911-944)\<close>

text \<open>
  Each category holds an icon and its items; the icon takes no part in the search and
  is carried along unchanged, so an entry of the model is the name with the items.
  \<^verbatim>\<open>Object.entries\<close> lists the entries in the order of the literal.
\<close>

definition CATEGORIES :: "(jsstring \<times> jsstring list) list" where
  "CATEGORIES = [
     (str ''General'', map str [''Fever'', ''Fatigue'', ''Chills'', ''Weakness'',
         ''Dizziness'', ''Insomnia'', ''Weight loss'', ''Night sweats'', ''Sweating'']),
     (str ''Respiratory'', map str [''Cough'', ''Shortness of breath'', ''Sore throat'',
         ''Runny nose'', ''Wheezing'', ''Chest congestion'', ''Congestion'', ''Sneezing'']),
     (str ''Digestive'', map str [''Nausea'', ''Vomiting'', ''Diarrhea'', ''Abdominal pain'',
         ''Bloating'', ''Heartburn'', ''Loss of appetite'', ''Indigestion'', ''Constipation'']),
     (str ''Cardiovascular'', map str [''Chest pain'', ''Palpitations'', ''Fast heart rate'',
         ''Swollen legs'', ''Cold extremities'', ''Irregular heartbeat'']),
     (str ''Neurological'', map str [''Headache'', ''Confusion'', ''Numbness'', ''Tremors'',
         ''Seizures'', ''Slurred speech'', ''Vision changes'']),
     (str ''Pain'', map str [''Back pain'', ''Joint pain'', ''Muscle ache'', ''Neck pain'',
         ''Sharp pain'', ''Dull ache'']),
     (str ''Skin'', map str [''Rash'', ''Itching'', ''Redness'', ''Swelling'', ''Bruising'',
         ''Dry skin'', ''Hives'', ''Watery eyes'']),
     (str ''Mental Health'', map str [''Anxiety'', ''Depression'', ''Mood swings'',
         ''Panic attacks'', ''Stress'', ''Irritability''])]"

subsection \<open>The state of the selector and its handlers (lines 946-1003)\<close>

text \<open>
  The three \<^verbatim>\<open>useState\<close> cells of the component (lines 947-950), and the flag
  \<^verbatim>\<open>isSymptomModalOpen\<close> of \<^verbatim>\<open>App\<close> (App.tsx line 147, initially \<^verbatim>\<open>false\<close>) that the
  component receives as \<^verbatim>\<open>isOpen\<close>. \<^verbatim>\<open>App\<close> renders the selector unconditionally
  (App.tsx lines 465-469), so the component is mounted, closed, with the page.
\<close>

record selector =
  selected :: "jsstring list"
  searchQuery :: jsstring
  activeCategories :: "jsstring list"
  isSymptomModalOpen :: bool

definition initial :: selector where
  "initial = \<lparr>selected = [], searchQuery = [], activeCategories = [str ''All''],
     isSymptomModalOpen = False\<rparr>"

text \<open>
  The hooks one render of the component calls, in order: the three \<^verbatim>\<open>useState\<close>; then
  the render returns \<^verbatim>\<open>null\<close> at line 952 when \<^verbatim>\<open>isOpen\<close> is false, and goes on to
  \<^verbatim>\<open>useMemo\<close> (line 1009) when it is true.
\<close>

datatype hook = UseState | UseMemo

definition hooksCalled :: "bool \<Rightarrow> hook list" where
  "hooksCalled isOpen =
     (if \<not> isOpen then [UseState, UseState, UseState]
      else [UseState, UseState, UseState, UseMemo])"

text \<open>
  React renders a mounted component again after an event handler has set state. The
  render must call as many hooks as the previous one: React throws
  \<^verbatim>\<open>Rendered more hooks than during the previous render\<close> at a hook call beyond those of
  the previous render, and \<^verbatim>\<open>Rendered fewer hooks than expected\<close> when the render ends
  before them. Neither \<^verbatim>\<open>App\<close> nor the component has an error boundary, so a throw
  ends the component. \<open>rerender prev next\<close> is the render of the state \<open>next\<close> that a
  handler asked for in the state \<open>prev\<close>.
\<close>

datatype react_error = RenderedMoreHooks | RenderedFewerHooks

definition rerender :: "selector \<Rightarrow> selector \<Rightarrow> react_error + selector" where
  "rerender prev next =
     (let before = length (hooksCalled (isSymptomModalOpen prev));
          now = length (hooksCalled (isSymptomModalOpen next))
      in if before < now then Inl RenderedMoreHooks
         else if now < before then Inl RenderedFewerHooks
         else Inr next)"

text \<open>
  The trigger button of \<^verbatim>\<open>App\<close> (App.tsx line 375) sets the flag to true; the \<^verbatim>\<open>onClose\<close>
  that \<^verbatim>\<open>App\<close> passes to the component (App.tsx line 467) sets it to false.
\<close>

definition openSelector :: "selector \<Rightarrow> react_error + selector" where
  "openSelector st = rerender st (st\<lparr>isSymptomModalOpen := True\<rparr>)"

definition onClose :: "selector \<Rightarrow> selector" where
  "onClose st = st\<lparr>isSymptomModalOpen := False\<rparr>"

definition toggleSymptom :: "jsstring \<Rightarrow> selector \<Rightarrow> selector" where
  "toggleSymptom symptom st =
     (let newSelected = selected st;
          newSelected = (if set_has newSelected symptom then set_delete newSelected symptom
                         else set_add newSelected symptom)
      in st\<lparr>selected := newSelected\<rparr>)"

text \<open>
  \<^verbatim>\<open>handleConfirm\<close> (lines 964-970) hands \<^verbatim>\<open>Array.from(selected)\<close> to \<^verbatim>\<open>onSelect\<close>, sets
  the three cells to their initial values and calls \<^verbatim>\<open>onClose\<close>: the result is the array
  handed over and the state the handler asks React to render. \<open>confirm\<close> is the click on
  the button (line 1240): the handler, then the render.
\<close>

definition handleConfirm :: "selector \<Rightarrow> jsstring list \<times> selector" where
  "handleConfirm st =
     (selected st,
      onClose (st\<lparr>selected := [], searchQuery := [], activeCategories := [str ''All'']\<rparr>))"

definition confirm :: "selector \<Rightarrow> react_error + selector" where
  "confirm st = rerender st (snd (handleConfirm st))"

text \<open>
  The Cancel button (line 1234), the close button of the header (line 1080) and the
  backdrop (line 1068) all have \<^verbatim>\<open>onClick={onClose}\<close> and nothing else: the handler
  \<open>onClose\<close>, then the render.
\<close>

definition cancel :: "selector \<Rightarrow> react_error + selector" where
  "cancel st = rerender st (onClose st)"

definition clearSearch :: "selector \<Rightarrow> selector" where
  "clearSearch st = st\<lparr>searchQuery := []\<rparr>"

text \<open>The \<^verbatim>\<open>onChange\<close> handler of the search box (line 1096).\<close>

definition setSearchQuery :: "jsstring \<Rightarrow> selector \<Rightarrow> selector" where
  "setSearchQuery v st = st\<lparr>searchQuery := v\<rparr>"

definition toggleCategory :: "jsstring \<Rightarrow> selector \<Rightarrow> selector" where
  "toggleCategory cat st =
     (let newCats = activeCategories st in
      if cat = str ''All'' then st\<lparr>activeCategories := [str ''All'']\<rparr>
      else
        let newCats = (if set_has newCats (str ''All'') then set_delete newCats (str ''All'')
                       else newCats);
            newCats = (if set_has newCats cat then set_delete newCats cat
                       else set_add newCats cat)
        in if set_size newCats = 0 then st\<lparr>activeCategories := [str ''All'']\<rparr>
           else st\<lparr>activeCategories := newCats\<rparr>)"

subsection \<open>Filtering and ranking (lines 1009-1059)\<close>

text \<open>The \<^verbatim>\<open>for\<close>-\<^verbatim>\<open>of\<close> loop over the synonyms of an item (lines 1033-1036).\<close>

fun scanSynonyms :: "(jsstring \<Rightarrow> jsstring) \<Rightarrow> jsstring \<Rightarrow> jsstring list \<Rightarrow> int \<Rightarrow> int option" where
  "scanSynonyms toLowerCase query [] maxScore = Some maxScore"
| "scanSynonyms toLowerCase query (syn # syns) maxScore = do {
     synScore \<leftarrow> getMatchScore toLowerCase syn query;
     scanSynonyms toLowerCase query syns (if synScore > maxScore then synScore else maxScore)
   }"

text \<open>The callback of \<^verbatim>\<open>data.items.map\<close> (lines 1027-1039): the item with its score.\<close>

definition scoreItem :: "(jsstring \<Rightarrow> jsstring) \<Rightarrow> jsstring \<Rightarrow> jsstring \<Rightarrow> (jsstring \<times> int) option" where
  "scoreItem toLowerCase query item = do {
     maxScore \<leftarrow> getMatchScore toLowerCase item query;
     maxScore \<leftarrow> (case map_of SYNONYMS item of
                    None \<Rightarrow> Some maxScore
                  | Some itemSynonyms \<Rightarrow> scanSynonyms toLowerCase query itemSynonyms maxScore);
     Some (item, maxScore)
   }"

text \<open>
  The callback of \<^verbatim>\<open>Object.entries(CATEGORIES).map\<close> (lines 1010-1058); it reads the
  cells \<^verbatim>\<open>searchQuery\<close> and \<^verbatim>\<open>activeCategories\<close> of the component. Its result is
  \<open>None\<close> where the model of an array read fails, \<open>Some None\<close> where the source returns
  \<^verbatim>\<open>null\<close>, and \<open>Some (Some entry)\<close> where it returns an entry.
  \<^verbatim>\<open>Array.prototype.sort\<close> is stable (ECMAScript 2019), and so is \<open>sort_key\<close>; the
  comparator \<^verbatim>\<open>b.score - a.score\<close> orders by score, highest first.
\<close>

definition displayCategory ::
  "(jsstring \<Rightarrow> jsstring) \<Rightarrow> selector \<Rightarrow> jsstring \<times> jsstring list
     \<Rightarrow> (jsstring \<times> jsstring list) option option" where
  "displayCategory toLowerCase st entry =
     (case entry of (category, items) \<Rightarrow>
      let isAll = set_has (activeCategories st) (str ''All'') in
      if \<not> isAll \<and> \<not> set_has (activeCategories st) category then Some None
      else
        let query = trim (searchQuery st) in
        if query = [] then Some (Some (category, items))
        else do {
          categoryScore \<leftarrow> getMatchScore toLowerCase category query;
          scoredItems \<leftarrow> traverse (scoreItem toLowerCase query) items;
          let relevantItems = filter (\<lambda>i. snd i > 0) scoredItems;
          let relevantItems = sort_key (\<lambda>i. - snd i) relevantItems;
          if categoryScore \<ge> 90 then Some (Some (category, items))
          else if length relevantItems > 0 then Some (Some (category, map fst relevantItems))
          else Some None
        })"

text \<open>
  \<^verbatim>\<open>displayedCategories\<close> is recomputed from the cells \<^verbatim>\<open>searchQuery\<close> and
  \<^verbatim>\<open>activeCategories\<close>; \<^verbatim>\<open>.filter(Boolean)\<close> keeps the entries that are not \<^verbatim>\<open>null\<close>.
\<close>

definition displayedCategories ::
  "(jsstring \<Rightarrow> jsstring) \<Rightarrow> selector \<Rightarrow> (jsstring \<times> jsstring list) list option" where
  "displayedCategories toLowerCase st = do {
     entries \<leftarrow> traverse (displayCategory toLowerCase st) CATEGORIES;
     Some (List.map_filter id entries)
   }"

subsection \<open>What the specification calls edit distance and score\<close>

text \<open>
  The specification (section 4.1) defines the edit distance as the minimum number of
  single-character insertions, deletions or substitutions that transform one string
  into the other. An edit script lists, left to right, what happens to each character:
  it is kept, substituted, inserted or deleted. \<open>before\<close> and \<open>after\<close> are the
  characters an edit reads and writes, \<open>price\<close> is what it counts for.
\<close>

datatype 'a edit = Keep 'a | Substitute 'a 'a | Insert 'a | Delete 'a

fun before :: "'a edit \<Rightarrow> 'a list" where
  "before (Keep c) = [c]"
| "before (Substitute c d) = [c]"
| "before (Insert d) = []"
| "before (Delete c) = [c]"

fun after :: "'a edit \<Rightarrow> 'a list" where
  "after (Keep c) = [c]"
| "after (Substitute c d) = [d]"
| "after (Insert d) = [d]"
| "after (Delete c) = []"

fun price :: "'a edit \<Rightarrow> nat" where
  "price (Keep c) = 0"
| "price (Substitute c d) = 1"
| "price (Insert d) = 1"
| "price (Delete c) = 1"

definition transforms :: "'a edit list \<Rightarrow> 'a list \<Rightarrow> 'a list \<Rightarrow> bool" where
  "transforms es xs ys = (concat (map before es) = xs \<and> concat (map after es) = ys)"

definition cost :: "'a edit list \<Rightarrow> nat" where
  "cost es = sum_list (map price es)"

definition edit_distance :: "'a list \<Rightarrow> 'a list \<Rightarrow> nat" where
  "edit_distance xs ys = (LEAST n. \<exists>es. transforms es xs ys \<and> cost es = n)"

text \<open>
  The textbook recurrence for the same number, which can be run: it is the link between
  the least cost of a script and the matrix the source fills.
\<close>

fun wagner_fischer :: "'a list \<Rightarrow> 'a list \<Rightarrow> nat" where
  "wagner_fischer [] ys = length ys"
| "wagner_fischer (x # xs) [] = Suc (length xs)"
| "wagner_fischer (x # xs) (y # ys) =
     min (min (wagner_fischer xs (y # ys) + 1) (wagner_fischer (x # xs) ys + 1))
         (wagner_fischer xs ys + (if x = y then 0 else 1))"

text \<open>Reading a script backwards: insertions become deletions.\<close>

fun mirror :: "'a edit \<Rightarrow> 'a edit" where
  "mirror (Keep c) = Keep c"
| "mirror (Substitute c d) = Substitute d c"
| "mirror (Insert d) = Delete d"
| "mirror (Delete c) = Insert c"

text \<open>
  The matrix of \<^verbatim>\<open>levenshteinDistance(a, b)\<close> once the rows up to \<open>k\<close> are filled: row \<open>i\<close>
  holds the distances from the first \<open>i\<close> code units of \<open>b\<close> to every prefix of \<open>a\<close>; the
  rows below still are the one-element arrays of the first loop.
\<close>

definition table :: "jsstring \<Rightarrow> jsstring \<Rightarrow> nat \<Rightarrow> nat list list" where
  "table a b k = map (\<lambda>i. if i \<le> k
       then map (\<lambda>j. wagner_fischer (take i b) (take j a)) [0..<Suc (length a)]
       else [i]) [0..<Suc (length b)]"

text \<open>
  The score of section 4.1 of the specification, tier by tier, in the specification's
  words: equal, starts with, contains, within the tolerance of the edit distance.
\<close>

definition spec_score :: "(jsstring \<Rightarrow> jsstring) \<Rightarrow> jsstring \<Rightarrow> jsstring \<Rightarrow> int" where
  "spec_score toLowerCase candidate query =
     (let c = toLowerCase candidate; q = toLowerCase query;
          d = edit_distance q c; tolerance = (if length q \<le> 5 then 1 else 2)
      in if c = q then 100
         else if (\<exists>rest. c = q @ rest) then 80
         else if (\<exists>front rest. c = front @ q @ rest) then 60
         else if length q > 2 \<and> d \<le> tolerance then 50 - int d * 10
         else 0)"

text \<open>
  The synonyms registered for a symptom (none when the table has no entry), and the
  effective score of section 4.2, step 4: the maximum over the name and the synonyms.
\<close>

definition synonymsOf :: "jsstring \<Rightarrow> jsstring list" where
  "synonymsOf item = (case map_of SYNONYMS item of None \<Rightarrow> [] | Some syns \<Rightarrow> syns)"

definition spec_effective_score :: "(jsstring \<Rightarrow> jsstring) \<Rightarrow> jsstring \<Rightarrow> jsstring \<Rightarrow> int" where
  "spec_effective_score toLowerCase query symptom =
     Max (insert (spec_score toLowerCase symptom query)
            ((\<lambda>syn. spec_score toLowerCase syn query) ` set (synonymsOf symptom)))"

text \<open>Whether a category passes the filter of the active categories (lines 1012-1015).\<close>

definition isActive :: "selector \<Rightarrow> jsstring \<Rightarrow> bool" where
  "isActive st category =
     (set_has (activeCategories st) (str ''All'') \<or> set_has (activeCategories st) category)"

text \<open>A sequence of clicks on category chips, first click first.\<close>

definition toggleCategories :: "jsstring list \<Rightarrow> selector \<Rightarrow> selector" where
  "toggleCategories cats st = fold toggleCategory cats st"

text \<open>
  The items of a category that survive a query, best first: what lines 1027-1045 keep,
  written with the effective score (items of equal score stay in their order).
\<close>

definition ranked :: "(jsstring \<Rightarrow> jsstring) \<Rightarrow> jsstring \<Rightarrow> jsstring list \<Rightarrow> jsstring list" where
  "ranked toLowerCase query items =
     sort_key (\<lambda>i. - spec_effective_score toLowerCase query i)
       (filter (\<lambda>i. 0 < spec_effective_score toLowerCase query i) items)"

text \<open>
  What the callback of \<^verbatim>\<open>displayedCategories\<close> returns for an entry, as a function without
  failure: \<open>None\<close> is the source's \<^verbatim>\<open>null\<close>.
\<close>

definition visible ::
  "(jsstring \<Rightarrow> jsstring) \<Rightarrow> selector \<Rightarrow> jsstring \<times> jsstring list \<Rightarrow> (jsstring \<times> jsstring list) option" where
  "visible toLowerCase st entry =
     (case entry of (category, items) \<Rightarrow>
      if \<not> isActive st category then None
      else if trim (searchQuery st) = [] then Some (category, items)
      else if 90 \<le> spec_score toLowerCase category (trim (searchQuery st)) then Some (category, items)
      else if ranked toLowerCase (trim (searchQuery st)) items \<noteq> []
        then Some (category, ranked toLowerCase (trim (searchQuery st)) items)
      else None)"


text \<open>
  The shape of the active categories after any click: the sentinel alone, or a
  non-empty selection without the sentinel.
\<close>

definition settled :: "jsstring list \<Rightarrow> bool" where
  "settled active = (active = [str ''All''] \<or> (active \<noteq> [] \<and> str ''All'' \<notin> set active))"


text \<open>
  A state used in the concrete scenarios: the chip \<open>Pain\<close> alone is active and the
  search box holds \<open>pa\<close>.
\<close>

definition pa_in_Pain :: selector where
  "pa_in_Pain = initial\<lparr>searchQuery := str ''pa'', activeCategories := [str ''Pain'']\<rparr>"

text \<open>
  Another one: the chip \<open>Cardiovascular\<close> alone is active and the search box holds \<open>ca\<close>.
\<close>

definition ca_in_Cardiovascular :: selector where
  "ca_in_Cardiovascular =
     initial\<lparr>searchQuery := str ''ca'', activeCategories := [str ''Cardiovascular'']\<rparr>"

section \<open>The edit distance\<close>

subsection \<open>The recurrence is the least cost of an edit script\<close>

lemma wf_Nil2 [simp]: "wagner_fischer xs [] = length xs"
  by (cases xs) simp_all

lemma transforms_Nil [simp]: "transforms [] xs ys = (xs = [] \<and> ys = [])"
  by (auto simp: transforms_def)

lemma transforms_Cons:
  "transforms (e # es) xs ys =
     (\<exists>xs' ys'. xs = before e @ xs' \<and> ys = after e @ ys' \<and> transforms es xs' ys')"
  by (auto simp: transforms_def)

lemma cost_Cons [simp]: "cost (e # es) = price e + cost es"
  by (simp add: cost_def)

lemma cost_Nil [simp]: "cost [] = 0"
  by (simp add: cost_def)

lemma wf_achieved: "\<exists>es. transforms es xs ys \<and> cost es = wagner_fischer xs ys"
proof (induction xs ys rule: wagner_fischer.induct)
  case (1 ys)
  have "transforms (map Insert ys) [] ys \<and> cost (map Insert ys) = length ys"
    by (induction ys) (auto simp: transforms_Cons)
  then show ?case by auto
next
  case (2 x xs)
  have "transforms (map Delete (x # xs)) (x # xs) [] \<and> cost (map Delete (x # xs)) = length (x # xs)"
    by (induction xs arbitrary: x) (auto simp: transforms_Cons)
  then show ?case by (metis length_Cons wagner_fischer.simps(2))
next
  case (3 x xs y ys)
  from 3(1) obtain e1 where e1: "transforms e1 xs (y # ys)" "cost e1 = wagner_fischer xs (y # ys)"
    by blast
  from 3(2) obtain e2 where e2: "transforms e2 (x # xs) ys" "cost e2 = wagner_fischer (x # xs) ys"
    by blast
  from 3(3) obtain e3 where e3: "transforms e3 xs ys" "cost e3 = wagner_fischer xs ys"
    by blast
  have a1: "transforms (Delete x # e1) (x # xs) (y # ys)" "cost (Delete x # e1) = wagner_fischer xs (y # ys) + 1"
    using e1 by (auto simp: transforms_Cons)
  have a2: "transforms (Insert y # e2) (x # xs) (y # ys)" "cost (Insert y # e2) = wagner_fischer (x # xs) ys + 1"
    using e2 by (auto simp: transforms_Cons)
  have a3: "transforms ((if x = y then Keep x else Substitute x y) # e3) (x # xs) (y # ys)"
    "cost ((if x = y then Keep x else Substitute x y) # e3) = wagner_fischer xs ys + (if x = y then 0 else 1)"
    using e3 by (auto simp: transforms_Cons)
  let ?m = "wagner_fischer (x # xs) (y # ys)"
  have "?m = wagner_fischer xs (y # ys) + 1 \<or> ?m = wagner_fischer (x # xs) ys + 1
      \<or> ?m = wagner_fischer xs ys + (if x = y then 0 else 1)"
    by (simp add: min_def)
  then show ?case using a1 a2 a3 by metis
qed

lemma wf_insert_step: "wagner_fischer xs (y # ys) \<le> wagner_fischer xs ys + 1"
  by (cases xs) simp_all

lemma wf_delete_step: "wagner_fischer (x # xs) ys \<le> wagner_fischer xs ys + 1"
  by (cases ys) simp_all

lemma wf_lower: "transforms es xs ys \<Longrightarrow> wagner_fischer xs ys \<le> cost es"
proof (induction es arbitrary: xs ys)
  case Nil
  then show ?case by simp
next
  case (Cons e es)
  then obtain xs' ys' where s: "xs = before e @ xs'" "ys = after e @ ys'" "transforms es xs' ys'"
    by (auto simp: transforms_Cons)
  from Cons.IH [OF s(3)] have ih: "wagner_fischer xs' ys' \<le> cost es" .
  show ?case
  proof (cases e)
    case (Keep c)
    then show ?thesis using s ih by (simp add: min_le_iff_disj)
  next
    case (Substitute c d)
    then show ?thesis using s ih by (simp add: min_le_iff_disj)
  next
    case (Insert d)
    then show ?thesis using s ih wf_insert_step [of xs' d ys'] by simp
  next
    case (Delete c)
    then show ?thesis using s ih wf_delete_step [of c xs' ys'] by simp
  qed
qed

lemma edit_distance_wf: "edit_distance xs ys = wagner_fischer xs ys"
  unfolding edit_distance_def
proof (rule Least_equality)
  show "\<exists>es. transforms es xs ys \<and> cost es = wagner_fischer xs ys" by (rule wf_achieved)
next
  fix n assume "\<exists>es. transforms es xs ys \<and> cost es = n"
  then show "wagner_fischer xs ys \<le> n" using wf_lower by auto
qed

lemma transforms_rev: "transforms es xs ys \<Longrightarrow> transforms (rev es) (rev xs) (rev ys)"
proof -
  have b: "rev (before e) = before e" for e :: "'a edit" by (cases e) simp_all
  have a: "rev (after e) = after e" for e :: "'a edit" by (cases e) simp_all
  assume "transforms es xs ys"
  then show ?thesis
    by (auto simp: transforms_def rev_concat rev_map[symmetric] map_idI comp_def a b)
qed

lemma cost_rev: "cost (rev es) = cost es"
  by (simp add: cost_def rev_map[symmetric] )

lemma wf_rev_le: "wagner_fischer (rev xs) (rev ys) \<le> wagner_fischer xs ys"
proof -
  obtain es where "transforms es xs ys" "cost es = wagner_fischer xs ys"
    using wf_achieved by blast
  then show ?thesis using wf_lower [OF transforms_rev] cost_rev by metis
qed

lemma wf_rev: "wagner_fischer (rev xs) (rev ys) = wagner_fischer xs ys"
  using wf_rev_le [of xs ys] wf_rev_le [of "rev xs" "rev ys"] by simp

lemma mirror_simps [simp]: "before (mirror e) = after e" "after (mirror e) = before e" "price (mirror e) = price e"
  by (cases e; simp)+

lemma wf_sym_le: "wagner_fischer ys xs \<le> wagner_fischer xs ys"
proof -
  obtain es where es: "transforms es xs ys" "cost es = wagner_fischer xs ys"
    using wf_achieved by blast
  have "transforms (map mirror es) ys xs" using es(1) by (simp add: transforms_def comp_def)
  moreover have "cost (map mirror es) = cost es" by (simp add: cost_def comp_def)
  ultimately show ?thesis using wf_lower es(2) by metis
qed

lemma wf_sym: "wagner_fischer xs ys = wagner_fischer ys xs"
  using wf_sym_le [of xs ys] wf_sym_le [of ys xs] by simp

lemma wf_undelete: "wagner_fischer xs ys \<le> wagner_fischer (x # xs) ys + 1"
proof (induction ys arbitrary: xs x)
  case Nil
  then show ?case by simp
next
  case (Cons y ys)
  have 1: "wagner_fischer xs (y # ys) \<le> wagner_fischer xs ys + 1" by (rule wf_insert_step)
  have 2: "wagner_fischer xs ys \<le> wagner_fischer (x # xs) ys + 1" by (rule Cons.IH)
  show ?case using 1 2 by (simp add: min_def)
qed

lemma wf_uninsert: "wagner_fischer xs ys \<le> wagner_fischer xs (y # ys) + 1"
  using wf_undelete [of ys xs y] by (simp add: wf_sym)

lemma wf_same_head: "wagner_fischer (x # xs) (x # ys) = wagner_fischer xs ys"
  using wf_undelete [of xs ys x] wf_uninsert [of xs ys x] by (simp add: min_def)

lemma wf_diff_head: "x \<noteq> y \<Longrightarrow> wagner_fischer (x # xs) (y # ys) =
   min (min (wagner_fischer xs ys + 1) (wagner_fischer (x # xs) ys + 1)) (wagner_fischer xs (y # ys) + 1)"
  by (simp add: min_def)

lemma wf_same_last: "wagner_fischer (xs @ [x]) (ys @ [x]) = wagner_fischer xs ys"
  using wf_rev [of "xs @ [x]" "ys @ [x]"] wf_same_head [of x "rev xs" "rev ys"] wf_rev [of xs ys] by simp

lemma wf_diff_last: "x \<noteq> y \<Longrightarrow> wagner_fischer (xs @ [x]) (ys @ [y]) =
   min (min (wagner_fischer xs ys + 1) (wagner_fischer (xs @ [x]) ys + 1)) (wagner_fischer xs (ys @ [y]) + 1)"
  using wf_rev [of "xs @ [x]" "ys @ [y]"] wf_diff_head [of x y "rev xs" "rev ys"] wf_rev [of xs ys]
     wf_rev [of "xs @ [x]" ys] wf_rev [of xs "ys @ [y]"] by simp



subsection \<open>The matrix of the source holds the recurrence\<close>

lemma for_each_append:
  "for_each (xs @ ys) body s = (case for_each xs body s of None \<Rightarrow> None | Some s' \<Rightarrow> for_each ys body s')"
  by (induction xs arbitrary: s) (auto split: option.splits)

lemma for_each_snoc:
  "for_each xs body s = Some s' \<Longrightarrow> for_each (xs @ [i]) body s = body i s'"
  by (simp add: for_each_append split: option.splits)

lemma get_cell_eq: "i < length M \<Longrightarrow> j < length (M ! i) \<Longrightarrow> get_cell M i j = Some (M ! i ! j)"
  by (simp add: get_cell_def get_row_def)

lemma set_cell_append:
  "i < length M \<Longrightarrow> j = length (M ! i) \<Longrightarrow> set_cell M i j v = Some (M[i := M ! i @ [v]])"
  by (simp add: set_cell_def get_row_def put_def)

lemma set_cell_update:
  "i < length M \<Longrightarrow> j < length (M ! i) \<Longrightarrow> set_cell M i j v = Some (M[i := (M ! i)[j := v]])"
  by (simp add: set_cell_def get_row_def put_def)

lemma first_loop: "for_each [0..<n] (\<lambda>i matrix. put matrix i [i]) [] = Some (map (\<lambda>i. [i]) [0..<n])"
proof (induction n)
  case 0
  then show ?case by simp
next
  case (Suc n)
  have "for_each ([0..<n] @ [n]) (\<lambda>i matrix. put matrix i [i]) [] = put (map (\<lambda>i. [i]) [0..<n]) n [n]"
    by (rule for_each_snoc [OF Suc])
  then show ?case by (simp add: put_def)
qed

lemma second_loop_tail:
  assumes "M ! 0 = [0]" "0 < length M"
  shows "for_each [1..<Suc n] (\<lambda>j matrix. set_cell matrix 0 j j) M = Some (M[0 := [0..<Suc n]])"
proof (induction n)
  case 0
  have "M[0 := [0]] = M" using assms by (metis list_update_id)
  then show ?case by simp
next
  case (Suc n)
  have "for_each ([1..<Suc n] @ [Suc n]) (\<lambda>j matrix. set_cell matrix 0 j j) M
          = set_cell (M[0 := [0..<Suc n]]) 0 (Suc n) (Suc n)"
    by (rule for_each_snoc [OF Suc])
  then show ?case using assms(2) by (simp add: set_cell_append)
qed

lemma second_loop:
  assumes "M ! 0 = [0]" "0 < length M"
  shows "for_each [0..<Suc n] (\<lambda>j matrix. set_cell matrix 0 j j) M = Some (M[0 := [0..<Suc n]])"
proof -
  have u: "[0..<Suc n] = 0 # [1..<Suc n]" by (simp add: upt_rec)
  have "set_cell M 0 0 0 = Some M" using assms
    by (simp add: set_cell_update) (metis list_update_id)
  then show ?thesis using second_loop_tail [OF assms] by (simp add: u del: upt_Suc)
qed


lemma length_table [simp]: "length (table a b k) = Suc (length b)"
  by (simp add: table_def)

lemma nth_table:
  "i \<le> length b \<Longrightarrow> table a b k ! i = (if i \<le> k
       then map (\<lambda>j. wagner_fischer (take i b) (take j a)) [0..<Suc (length a)] else [i])"
  unfolding table_def by (subst nth_map_upt) auto

lemma table_0: "table a b 0 = (map (\<lambda>i. [i]) [0..<Suc (length b)])[0 := [0..<Suc (length a)]]"
proof (rule nth_equalityI)
  show "length (table a b 0) = length ((map (\<lambda>i. [i]) [0..<Suc (length b)])[0 := [0..<Suc (length a)]])"
    by simp
next
  fix i assume "i < length (table a b 0)"
  then have i: "i \<le> length b" by simp
  have row0: "map (\<lambda>j. wagner_fischer [] (take j a)) [0..<Suc (length a)] = [0..<Suc (length a)]"
    by (rule map_idI) (simp del: upt_Suc)
  show "table a b 0 ! i = (map (\<lambda>i. [i]) [0..<Suc (length b)])[0 := [0..<Suc (length a)]] ! i"
  proof (cases i)
    case 0
    then show ?thesis using row0 by (simp add: nth_table del: upt_Suc)
  next
    case (Suc i')
    have "table a b 0 ! i = [i]" using Suc i by (simp add: nth_table)
    moreover have "map (\<lambda>i. [i]) [0..<Suc (length b)] ! i = [i]"
      using i by (subst nth_map_upt) simp_all
    ultimately show ?thesis using Suc by simp
  qed
qed

lemma fill_cell_step:
  assumes i: "i < length b" and j: "j < length a"
    and len: "length S = Suc (length b)"
    and above: "S ! i = map (\<lambda>j. wagner_fischer (take i b) (take j a)) [0..<Suc (length a)]"
    and row: "S ! Suc i = map (\<lambda>j. wagner_fischer (take (Suc i) b) (take j a)) [0..<Suc j]"
  shows "fill_cell a b (Suc i) (Suc j) S =
           Some (S[Suc i := map (\<lambda>j. wagner_fischer (take (Suc i) b) (take j a)) [0..<Suc (Suc j)]])"
proof -
  let ?D = "\<lambda>i j. wagner_fischer (take i b) (take j a)"
  have tb: "take (Suc i) b = take i b @ [b ! i]" using i by (rule take_Suc_conv_app_nth)
  have ta: "take (Suc j) a = take j a @ [a ! j]" using j by (rule take_Suc_conv_app_nth)
  have d: "get_cell S i j = Some (?D i j)"
    using i j len above by (subst get_cell_eq) (simp_all del: upt_Suc)
  have l: "get_cell S (Suc i) j = Some (?D (Suc i) j)"
    using i j len row by (subst get_cell_eq) (simp_all del: upt_Suc)
  have u: "get_cell S i (Suc j) = Some (?D i (Suc j))"
    using i j len above by (subst get_cell_eq) (simp_all del: upt_Suc)
  have w: "set_cell S (Suc i) (Suc j) v = Some (S[Suc i := S ! Suc i @ [v]])" for v
    using i len row by (intro set_cell_append) simp_all
  have ch: "(charAt b i = charAt a j) = (b ! i = a ! j)"
    using i j by (simp add: charAt_def)
  have grow: "S ! Suc i @ [?D (Suc i) (Suc j)] = map (?D (Suc i)) [0..<Suc (Suc j)]"
    using row by simp
  show ?thesis
  proof (cases "b ! i = a ! j")
    case True
    have "?D (Suc i) (Suc j) = ?D i j"
      by (simp only: tb ta True wf_same_last)
    then show ?thesis using True grow
      by (simp add: fill_cell_def ch d w del: upt_Suc)
  next
    case False
    have "?D (Suc i) (Suc j) = min (min (?D i j + 1) (?D (Suc i) j + 1)) (?D i (Suc j) + 1)"
      using wf_diff_last [OF False, of "take i b" "take j a"] by (simp only: tb ta)
    then show ?thesis using False grow
      by (simp add: fill_cell_def ch d l u w del: upt_Suc)
  qed
qed

lemma inner_loop:
  assumes i: "i < length b" and T: "T = table a b i"
  shows "j \<le> length a \<Longrightarrow>
     for_each [1..<Suc j] (\<lambda>j. fill_cell a b (Suc i) j) T =
       Some (T[Suc i := map (\<lambda>j. wagner_fischer (take (Suc i) b) (take j a)) [0..<Suc j]])"
proof (induction j)
  case 0
  have "T ! Suc i = [Suc i]" using i by (simp add: T nth_table)
  then have "T[Suc i := [Suc i]] = T" by (metis list_update_id)
  moreover have "min (length b) (Suc i) = Suc i" using i by simp
  ultimately show ?case by simp
next
  case (Suc j)
  let ?S = "T[Suc i := map (\<lambda>j. wagner_fischer (take (Suc i) b) (take j a)) [0..<Suc j]]"
  have prev: "for_each [1..<Suc j] (\<lambda>j. fill_cell a b (Suc i) j) T = Some ?S"
    using Suc by simp
  have "for_each ([1..<Suc j] @ [Suc j]) (\<lambda>j. fill_cell a b (Suc i) j) T = fill_cell a b (Suc i) (Suc j) ?S"
    by (rule for_each_snoc [OF prev])
  moreover have "fill_cell a b (Suc i) (Suc j) ?S =
      Some (?S[Suc i := map (\<lambda>j. wagner_fischer (take (Suc i) b) (take j a)) [0..<Suc (Suc j)]])"
  proof (rule fill_cell_step)
    show "i < length b" by (rule i)
    show "j < length a" using Suc.prems by simp
    show "length ?S = Suc (length b)" by (simp add: T)
    show "?S ! i = map (\<lambda>j. wagner_fischer (take i b) (take j a)) [0..<Suc (length a)]"
      using i by (simp add: T nth_table del: upt_Suc)
    show "?S ! Suc i = map (\<lambda>j. wagner_fischer (take (Suc i) b) (take j a)) [0..<Suc j]"
      using i by (simp add: T del: upt_Suc)
  qed
  ultimately show ?case by (simp del: upt_Suc add: upt_Suc_append)
qed

lemma table_Suc:
  assumes "i < length b"
  shows "(table a b i)[Suc i := map (\<lambda>j. wagner_fischer (take (Suc i) b) (take j a)) [0..<Suc (length a)]]
         = table a b (Suc i)"
proof (rule nth_equalityI)
  show "length ((table a b i)[Suc i := map (\<lambda>j. wagner_fischer (take (Suc i) b) (take j a)) [0..<Suc (length a)]])
      = length (table a b (Suc i))" by simp
next
  fix k assume "k < length ((table a b i)[Suc i := map (\<lambda>j. wagner_fischer (take (Suc i) b) (take j a)) [0..<Suc (length a)]])"
  then have k: "k \<le> length b" by simp
  show "(table a b i)[Suc i := map (\<lambda>j. wagner_fischer (take (Suc i) b) (take j a)) [0..<Suc (length a)]] ! k
      = table a b (Suc i) ! k"
    using k assms by (cases "k = Suc i") (auto simp add: nth_table nth_list_update simp del: upt_Suc)
qed

lemma outer_loop:
  "k \<le> length b \<Longrightarrow>
     for_each [1..<Suc k] (\<lambda>i. for_each [1..<Suc (length a)] (\<lambda>j. fill_cell a b i j)) (table a b 0)
       = Some (table a b k)"
proof (induction k)
  case 0
  then show ?case by simp
next
  case (Suc k)
  then have prev: "for_each [1..<Suc k] (\<lambda>i. for_each [1..<Suc (length a)] (\<lambda>j. fill_cell a b i j)) (table a b 0)
       = Some (table a b k)" by simp
  have "for_each ([1..<Suc k] @ [Suc k]) (\<lambda>i. for_each [1..<Suc (length a)] (\<lambda>j. fill_cell a b i j)) (table a b 0)
       = for_each [1..<Suc (length a)] (\<lambda>j. fill_cell a b (Suc k) j) (table a b k)"
    by (rule for_each_snoc [OF prev])
  also have "\<dots> = Some ((table a b k)[Suc k := map (\<lambda>j. wagner_fischer (take (Suc k) b) (take j a)) [0..<Suc (length a)]])"
    using Suc.prems by (intro inner_loop) simp_all
  also have "\<dots> = Some (table a b (Suc k))"
    using Suc.prems by (simp only: table_Suc)
  finally show ?case by (simp del: upt_Suc add: upt_Suc_append)
qed

lemma levenshteinDistance_wf: "levenshteinDistance a b = Some (wagner_fischer b a)"
proof -
  let ?m1 = "map (\<lambda>i. [i]) [0..<Suc (length b)]"
  have 1: "for_each [0..<Suc (length b)] (\<lambda>i matrix. put matrix i [i]) [] = Some ?m1"
    by (rule first_loop)
  have "?m1 ! 0 = [0]" by (simp add: nth_append upt_rec)
  then have 2: "for_each [0..<Suc (length a)] (\<lambda>j matrix. set_cell matrix 0 j j) ?m1 = Some (table a b 0)"
    by (simp only: table_0) (rule second_loop, simp_all)
  have 3: "for_each [1..<Suc (length b)] (\<lambda>i. for_each [1..<Suc (length a)] (\<lambda>j. fill_cell a b i j)) (table a b 0)
       = Some (table a b (length b))"
    by (rule outer_loop) simp
  have 4: "get_cell (table a b (length b)) (length b) (length a) = Some (wagner_fischer b a)"
    by (subst get_cell_eq) (simp_all add: nth_table del: upt_Suc)
  show ?thesis
    unfolding levenshteinDistance_def by (simp only: 1 2 3 4 bind.simps)
qed

lemma levenshteinDistance_correct: "levenshteinDistance a b = Some (edit_distance a b)"
  by (simp add: levenshteinDistance_wf edit_distance_wf wf_sym [of a b])


section \<open>The source computes the specification's scores\<close>

lemma startsWith_iff: "startsWith t q = (\<exists>rest. t = q @ rest)"
  by (induction t q rule: startsWith.induct) auto

lemma includes_js_iff: "includes_js t q = (\<exists>front rest. t = front @ q @ rest)"
proof (induction t)
  case Nil
  then show ?case by auto
next
  case (Cons d t)
  show ?case
  proof
    assume "includes_js (d # t) q"
    then consider "startsWith (d # t) q" | "includes_js t q" by auto
    then show "\<exists>front rest. d # t = front @ q @ rest"
    proof cases
      case 1
      then obtain rest where "d # t = q @ rest" by (auto simp: startsWith_iff)
      then have "d # t = [] @ q @ rest" by simp
      then show ?thesis by blast
    next
      case 2
      then obtain front rest where "t = front @ q @ rest" using Cons by auto
      then have "d # t = (d # front) @ q @ rest" by simp
      then show ?thesis by blast
    qed
  next
    assume "\<exists>front rest. d # t = front @ q @ rest"
    then obtain front rest where fr: "d # t = front @ q @ rest" by blast
    show "includes_js (d # t) q"
    proof (cases front)
      case Nil
      then have "startsWith (d # t) q" using fr by (auto simp: startsWith_iff)
      then show ?thesis by simp
    next
      case (Cons f front')
      then have "t = front' @ q @ rest" using fr by simp
      then have "includes_js t q" using Cons.IH by blast
      then show ?thesis by simp
    qed
  qed
qed

lemma wf_zero_iff: "(wagner_fischer xs ys = 0) = (xs = ys)"
  by (induction xs ys rule: wagner_fischer.induct) auto

lemma edit_distance_zero_iff: "(edit_distance xs ys = 0) = (xs = ys)"
  by (simp add: edit_distance_wf wf_zero_iff)

lemma getMatchScore_spec:
  "getMatchScore toLowerCase text query = Some (spec_score toLowerCase text query)"
  by (simp add: getMatchScore_def spec_score_def Let_def startsWith_iff includes_js_iff
      levenshteinDistance_correct)

lemma scanSynonyms_spec:
  "scanSynonyms toLowerCase query syns m =
     Some (Max (insert m ((\<lambda>syn. spec_score toLowerCase syn query) ` set syns)))"
proof (induction syns arbitrary: m)
  case Nil
  then show ?case by simp
next
  case (Cons syn syns)
  let ?s = "spec_score toLowerCase syn query"
  let ?rest = "(\<lambda>syn. spec_score toLowerCase syn query) ` set syns"
  have fin: "finite ?rest" by simp
  have "Max (insert (if m < ?s then ?s else m) ?rest) = Max (insert m (insert ?s ?rest))"
  proof -
    have "Max (insert m (insert ?s ?rest)) = Max (insert (max m ?s) ?rest)"
    proof (cases "?rest = {}")
      case True
      then show ?thesis by simp
    next
      case False
      then show ?thesis using fin by (simp add: max.assoc)
    qed
    then show ?thesis by (simp add: max_def not_less)
  qed
  then show ?case by (simp add: getMatchScore_spec Cons.IH)
qed

lemma scoreItem_spec:
  "scoreItem toLowerCase query item = Some (item, spec_effective_score toLowerCase query item)"
  by (simp add: scoreItem_def getMatchScore_spec scanSynonyms_spec spec_effective_score_def
      synonymsOf_def split: option.splits)

lemma traverse_total: "traverse (\<lambda>x. Some (g x)) xs = Some (map g xs)"
  by (induction xs) simp_all


lemma traverse_scoreItem:
  "traverse (scoreItem toLowerCase query) items =
     Some (map (\<lambda>i. (i, spec_effective_score toLowerCase query i)) items)"
proof -
  have "scoreItem toLowerCase query = (\<lambda>i. Some (i, spec_effective_score toLowerCase query i))"
    by (rule ext) (rule scoreItem_spec)
  then show ?thesis by (simp only: traverse_total)
qed

lemma insort_key_map:
  "insort_key k (g x) (map g xs) = map g (insort_key (\<lambda>x. k (g x)) x xs)"
  by (induction xs) simp_all

lemma sort_key_map: "sort_key k (map g xs) = map g (sort_key (\<lambda>x. k (g x)) xs)"
  by (induction xs) (simp_all add: insort_key_map)

lemma ranked_pairs:
  "map fst (sort_key (\<lambda>i. - snd i) (filter (\<lambda>i. 0 < snd i) (map (\<lambda>i. (i, f i)) items)))
     = sort_key (\<lambda>i. - f i) (filter (\<lambda>i. 0 < f i) items)"
  by (simp add: filter_map comp_def sort_key_map)

lemma displayCategory_spec:
  "displayCategory toLowerCase st (category, items) = Some
     (if \<not> isActive st category then None
      else if trim (searchQuery st) = [] then Some (category, items)
      else if 90 \<le> spec_score toLowerCase category (trim (searchQuery st)) then Some (category, items)
      else if ranked toLowerCase (trim (searchQuery st)) items \<noteq> []
        then Some (category, ranked toLowerCase (trim (searchQuery st)) items)
      else None)"
proof -
  let ?q = "trim (searchQuery st)"
  let ?f = "spec_effective_score toLowerCase ?q"
  let ?sorted = "sort_key (\<lambda>i. - snd i) (filter (\<lambda>i. 0 < snd i) (map (\<lambda>i. (i, ?f i)) items))"
  have r: "map fst ?sorted = ranked toLowerCase ?q items"
    unfolding ranked_def by (rule ranked_pairs)
  have e: "(?sorted = []) = (ranked toLowerCase ?q items = [])"
    unfolding r [symmetric] by (rule map_is_Nil_conv [symmetric])
  have body: "do {
          categoryScore \<leftarrow> getMatchScore toLowerCase category ?q;
          scoredItems \<leftarrow> traverse (scoreItem toLowerCase ?q) items;
          let relevantItems = filter (\<lambda>i. snd i > 0) scoredItems;
          let relevantItems = sort_key (\<lambda>i. - snd i) relevantItems;
          if categoryScore \<ge> 90 then Some (Some (category, items))
          else if length relevantItems > 0 then Some (Some (category, map fst relevantItems))
          else Some None
        } = Some (if 90 \<le> spec_score toLowerCase category ?q then Some (category, items)
      else if ranked toLowerCase ?q items \<noteq> [] then Some (category, ranked toLowerCase ?q items)
      else None)"
    by (simp only: getMatchScore_spec traverse_scoreItem bind.simps Let_def r e length_greater_0_conv
        if_distrib [of Some] cong: if_cong) 
  show ?thesis
    by (simp only: displayCategory_def prod.case Let_def body [unfolded Let_def])
       (simp add: isActive_def)
qed


lemma displayCategory_visible:
  "displayCategory toLowerCase st entry = Some (visible toLowerCase st entry)"
  by (cases entry) (simp only: displayCategory_spec visible_def prod.case)

lemma map_filter_id_map: "List.map_filter id (map g xs) = List.map_filter g xs"
  by (induction xs) (simp_all add: List.map_filter_simps split: option.splits)

lemma displayedCategories_visible:
  "displayedCategories toLowerCase st = Some (List.map_filter (visible toLowerCase st) CATEGORIES)"
proof -
  have "displayCategory toLowerCase st = (\<lambda>e. Some (visible toLowerCase st e))"
    by (rule ext) (rule displayCategory_visible)
  then show ?thesis
    by (simp only: displayedCategories_def traverse_total bind.simps map_filter_id_map)
qed

lemma in_map_filter_iff: "(y \<in> set (List.map_filter g xs)) = (\<exists>x\<in>set xs. g x = Some y)"
  by (induction xs) (auto simp: List.map_filter_simps split: option.splits)

lemma map_filter_all_or_nothing:
  "(\<And>x. x \<in> set xs \<Longrightarrow> g x = (if P x then Some x else None)) \<Longrightarrow> List.map_filter g xs = filter P xs"
  by (induction xs) (simp_all add: List.map_filter_simps)

lemma mset_ranked:
  "mset (ranked toLowerCase query items)
     = mset (filter (\<lambda>i. 0 < spec_effective_score toLowerCase query i) items)"
  by (simp add: ranked_def)

lemma sorted_ranked:
  "sorted_wrt (\<lambda>x y. spec_effective_score toLowerCase query y \<le> spec_effective_score toLowerCase query x)
     (ranked toLowerCase query items)"
proof -
  have "sorted (map (\<lambda>i. - spec_effective_score toLowerCase query i) (ranked toLowerCase query items))"
    unfolding ranked_def by (rule sorted_sort_key)
  then show ?thesis by (simp add: sorted_map)
qed

lemma stable_ranked:
  "filter (\<lambda>i. spec_effective_score toLowerCase query i = k) (ranked toLowerCase query items)
     = filter (\<lambda>i. spec_effective_score toLowerCase query i = k \<and> 0 < k) items"
proof -
  let ?f = "spec_effective_score toLowerCase query"
  have "filter (\<lambda>i. - ?f i = - k) (ranked toLowerCase query items)
      = filter (\<lambda>i. - ?f i = - k) (filter (\<lambda>i. 0 < ?f i) items)"
    unfolding ranked_def by (rule sort_key_stable)
  then have "filter (\<lambda>i. ?f i = k) (ranked toLowerCase query items)
      = filter (\<lambda>i. ?f i = k) (filter (\<lambda>i. 0 < ?f i) items)" by simp
  also have "\<dots> = filter (\<lambda>i. ?f i = k \<and> 0 < k) items"
    by (simp add: conj_commute cong: conj_cong)
  finally show ?thesis .
qed

lemma dropWhile_all_iff: "(\<forall>x\<in>set (dropWhile P s). P x) = (\<forall>x\<in>set s. P x)"
proof
  assume a: "\<forall>x\<in>set (dropWhile P s). P x"
  have "dropWhile P s = []"
  proof (rule ccontr)
    assume ne: "dropWhile P s \<noteq> []"
    then have "\<not> P (hd (dropWhile P s))" by (rule hd_dropWhile)
    moreover have "hd (dropWhile P s) \<in> set (dropWhile P s)" using ne by simp
    ultimately show False using a by blast
  qed
  then show "\<forall>x\<in>set s. P x" by (simp add: dropWhile_eq_Nil_conv)
next
  assume "\<forall>x\<in>set s. P x"
  then show "\<forall>x\<in>set (dropWhile P s). P x" by (meson set_dropWhileD)
qed

lemma trim_empty_iff: "(trim s = []) = (\<forall>c\<in>set s. isWhiteSpace c)"
  by (simp add: trim_def dropWhile_eq_Nil_conv dropWhile_all_iff)

lemma spec_score_exact: "(90 \<le> spec_score toLowerCase candidate query) = (toLowerCase candidate = toLowerCase query)"
  by (simp add: spec_score_def Let_def)

lemma spec_score_values: "spec_score toLowerCase candidate query \<in> {0, 30, 40, 60, 80, 100}"
proof -
  let ?d = "edit_distance (toLowerCase query) (toLowerCase candidate)"
  have "?d = 0 \<Longrightarrow> toLowerCase candidate = toLowerCase query"
    by (simp add: edit_distance_zero_iff)
  moreover have "?d \<le> 2 \<Longrightarrow> ?d = 0 \<or> ?d = 1 \<or> ?d = 2" by arith
  ultimately show ?thesis
    by (auto simp add: spec_score_def Let_def split: if_splits)
qed


section \<open>Category chips\<close>

lemma toggleCategory_active:
  "activeCategories (toggleCategory cat st) =
     (if cat = str ''All'' then [str ''All'']
      else let rest = removeAll cat (removeAll (str ''All'') (activeCategories st)) in
        if cat \<in> set (activeCategories st)
        then (if rest = [] then [str ''All''] else rest)
        else removeAll (str ''All'') (activeCategories st) @ [cat])"
  by (auto simp add: toggleCategory_def Let_def set_has_def set_delete_def set_add_def set_size_def)

lemma settled_toggleCategory: "settled (activeCategories (toggleCategory cat st))"
  by (auto simp add: toggleCategory_active settled_def Let_def)

lemma settled_toggleCategories:
  "settled (activeCategories st) \<Longrightarrow> settled (activeCategories (toggleCategories cats st))"
  unfolding toggleCategories_def
  by (induction cats arbitrary: st) (simp_all add: settled_toggleCategory)

lemma settled_reachable: "settled (activeCategories (toggleCategories cats initial))"
  by (rule settled_toggleCategories) (simp add: settled_def initial_def)

lemma removeAll_single: "set xs = {x} \<Longrightarrow> removeAll x xs = []"
  by (metis Diff_cancel set_empty set_removeAll)


section \<open>Concrete strings\<close>

lemma str_inject: "(str a = str b) = (a = b)"
  by (simp add: str_def inj_map_eq_map [OF inj_of_char] )

lemma lower_Fever: "asciiToLowerCase (str ''Fever'') = str ''fever''"
  by (simp add: asciiToLowerCase_def str_def)

lemma lower_fevr: "asciiToLowerCase (str ''fevr'') = str ''fevr''"
  by (simp add: asciiToLowerCase_def str_def)

lemma distance_fevr: "edit_distance (str ''fevr'') (str ''fever'') = 1"
proof -
  have "levenshteinDistance (str ''fevr'') (str ''fever'') = Some 1" by code_simp
  then show ?thesis by (simp add: levenshteinDistance_correct)
qed


lemma effective_from_scoreItem:
  "scoreItem toLowerCase query item = Some (item, s) \<Longrightarrow> spec_effective_score toLowerCase query item = s"
  by (simp add: scoreItem_spec)

lemma score_from_getMatchScore:
  "getMatchScore toLowerCase candidate query = Some s \<Longrightarrow> spec_score toLowerCase candidate query = s"
  by (simp add: getMatchScore_spec)

lemma trim_feve: "trim (str ''feve'') = str ''feve''"
  by (simp add: trim_def str_def isWhiteSpace_def)

lemma score_Fever_feve: "getMatchScore asciiToLowerCase (str ''Fever'') (str ''feve'') = Some 80"
  by code_simp

lemma score_General_feve: "getMatchScore asciiToLowerCase (str ''General'') (str ''feve'') = Some 0"
  by code_simp

lemma scoreItem_Fever_feve: "scoreItem asciiToLowerCase (str ''feve'') (str ''Fever'') = Some (str ''Fever'', 80)"
  by code_simp

lemma distance_feve: "levenshteinDistance (str ''feve'') (str ''fever'') = Some 1"
  by code_simp


lemma trim_pa: "trim (str ''pa'') = str ''pa''"
  by (simp add: trim_def str_def isWhiteSpace_def)

lemma score_Pain_pa: "getMatchScore asciiToLowerCase (str ''Pain'') (str ''pa'') = Some 80"
  by code_simp

lemma eff_pa_Back_pain: "spec_effective_score asciiToLowerCase (str ''pa'') (str ''Back pain'') = 60"
proof (rule effective_from_scoreItem)
  show "scoreItem asciiToLowerCase (str ''pa'') (str ''Back pain'') = Some (str ''Back pain'', 60)"
    by code_simp
qed

lemma eff_pa_Joint_pain: "spec_effective_score asciiToLowerCase (str ''pa'') (str ''Joint pain'') = 60"
proof (rule effective_from_scoreItem)
  show "scoreItem asciiToLowerCase (str ''pa'') (str ''Joint pain'') = Some (str ''Joint pain'', 60)"
    by code_simp
qed

lemma eff_pa_Muscle_ache: "spec_effective_score asciiToLowerCase (str ''pa'') (str ''Muscle ache'') = 80"
proof (rule effective_from_scoreItem)
  show "scoreItem asciiToLowerCase (str ''pa'') (str ''Muscle ache'') = Some (str ''Muscle ache'', 80)"
    by code_simp
qed

lemma eff_pa_Neck_pain: "spec_effective_score asciiToLowerCase (str ''pa'') (str ''Neck pain'') = 60"
proof (rule effective_from_scoreItem)
  show "scoreItem asciiToLowerCase (str ''pa'') (str ''Neck pain'') = Some (str ''Neck pain'', 60)"
    by code_simp
qed

lemma eff_pa_Sharp_pain: "spec_effective_score asciiToLowerCase (str ''pa'') (str ''Sharp pain'') = 60"
proof (rule effective_from_scoreItem)
  show "scoreItem asciiToLowerCase (str ''pa'') (str ''Sharp pain'') = Some (str ''Sharp pain'', 60)"
    by code_simp
qed

lemma eff_pa_Dull_ache: "spec_effective_score asciiToLowerCase (str ''pa'') (str ''Dull ache'') = 0"
proof (rule effective_from_scoreItem)
  show "scoreItem asciiToLowerCase (str ''pa'') (str ''Dull ache'') = Some (str ''Dull ache'', 0)"
    by code_simp
qed

lemmas eff_pa = eff_pa_Back_pain eff_pa_Joint_pain eff_pa_Muscle_ache eff_pa_Neck_pain
  eff_pa_Sharp_pain eff_pa_Dull_ache

lemma ranked_pa_Pain:
  "ranked asciiToLowerCase (str ''pa'')
     [str ''Back pain'', str ''Joint pain'', str ''Muscle ache'', str ''Neck pain'',
      str ''Sharp pain'', str ''Dull ache'']
   = [str ''Muscle ache'', str ''Back pain'', str ''Joint pain'', str ''Neck pain'',
      str ''Sharp pain'']"
  by (simp add: ranked_def eff_pa)

lemma isActive_pa_in_Pain: "isActive pa_in_Pain c = (c = str ''Pain'')"
  by (auto simp add: pa_in_Pain_def isActive_def set_has_def str_inject)

lemma searchQuery_pa_in_Pain: "trim (searchQuery pa_in_Pain) = str ''pa''"
  by (simp add: pa_in_Pain_def trim_pa)

lemma str_not_Nil: "(str s = []) = (s = [])"
  by (simp add: str_def)

lemma shown_pa_in_Pain:
  "displayedCategories asciiToLowerCase pa_in_Pain
     = Some [(str ''Pain'', [str ''Muscle ache'', str ''Back pain'', str ''Joint pain'',
               str ''Neck pain'', str ''Sharp pain''])]"
  by (simp add: displayedCategories_visible CATEGORIES_def List.map_filter_simps visible_def
      isActive_pa_in_Pain searchQuery_pa_in_Pain str_inject str_not_Nil ranked_pa_Pain
      score_from_getMatchScore [OF score_Pain_pa])

lemma General_in_CATEGORIES:
  "(str ''General'', [str ''Fever'', str ''Fatigue'', str ''Chills'', str ''Weakness'',
      str ''Dizziness'', str ''Insomnia'', str ''Weight loss'', str ''Night sweats'',
      str ''Sweating'']) \<in> set CATEGORIES"
  by (simp add: CATEGORIES_def)

lemma Pain_in_CATEGORIES:
  "(str ''Pain'', [str ''Back pain'', str ''Joint pain'', str ''Muscle ache'', str ''Neck pain'',
      str ''Sharp pain'', str ''Dull ache'']) \<in> set CATEGORIES"
  by (simp add: CATEGORIES_def)

lemma pa_in_Pain_reached:
  "setSearchQuery (str ''pa'') (toggleCategory (str ''Pain'') initial) = pa_in_Pain"
  by (simp add: pa_in_Pain_def setSearchQuery_def toggleCategory_def initial_def Let_def
      set_has_def set_delete_def set_add_def set_size_def str_inject)

lemma shown_item:
  assumes "(category, items) \<in> set CATEGORIES"
    and "isActive st category"
    and "trim (searchQuery st) \<noteq> []"
    and "spec_score toLowerCase category (trim (searchQuery st)) < 90"
    and "item \<in> set items"
    and "0 < spec_effective_score toLowerCase (trim (searchQuery st)) item"
  shows "\<exists>shown found. displayedCategories toLowerCase st = Some shown
           \<and> (category, found) \<in> set shown \<and> item \<in> set found"
proof -
  let ?found = "ranked toLowerCase (trim (searchQuery st)) items"
  have i: "item \<in> set ?found" using assms(5,6) by (simp add: ranked_def)
  then have "?found \<noteq> []" by auto
  then have "visible toLowerCase st (category, items) = Some (category, ?found)"
    using assms(2,3,4) by (simp add: visible_def)
  then have "(category, ?found) \<in> set (List.map_filter (visible toLowerCase st) CATEGORIES)"
    using assms(1) by (auto simp: in_map_filter_iff)
  then show ?thesis using i by (auto simp add: displayedCategories_visible)
qed

lemma displayCategory_pa_in_Pain:
  "displayCategory asciiToLowerCase pa_in_Pain
     (str ''Pain'', [str ''Back pain'', str ''Joint pain'', str ''Muscle ache'', str ''Neck pain'',
        str ''Sharp pain'', str ''Dull ache''])
   = Some (Some (str ''Pain'', [str ''Muscle ache'', str ''Back pain'', str ''Joint pain'',
        str ''Neck pain'', str ''Sharp pain'']))"
  by (simp add: displayCategory_spec isActive_pa_in_Pain searchQuery_pa_in_Pain str_not_Nil
      ranked_pa_Pain score_from_getMatchScore [OF score_Pain_pa])

lemma lower_Pain: "asciiToLowerCase (str ''Pain'') = str ''pain''"
  by (simp add: asciiToLowerCase_def str_def)

lemma lower_pain: "asciiToLowerCase (str ''pain'') = str ''pain''"
  by (simp add: asciiToLowerCase_def str_def)

lemma trim_pain: "trim (str ''pain'') = str ''pain''"
  by (simp add: trim_def str_def isWhiteSpace_def)

lemma trim_padded_general: "trim (str '' general '') = str ''general''"
  by (simp add: trim_def str_def isWhiteSpace_def)

lemma scoreItem_Fever_general:
  "scoreItem asciiToLowerCase (str ''general'') (str ''Fever'') = Some (str ''Fever'', 0)"
  by code_simp

lemma handleConfirm_resets: "snd (handleConfirm st) = initial"
  by (simp add: handleConfirm_def onClose_def initial_def)

lemma onClose_keeps_cells:
  "selected (onClose st) = selected st"
  "searchQuery (onClose st) = searchQuery st"
  "activeCategories (onClose st) = activeCategories st"
  by (simp_all add: onClose_def)

lemma cancel_throws: "isSymptomModalOpen st \<Longrightarrow> cancel st = Inl RenderedFewerHooks"
  by (simp add: cancel_def rerender_def onClose_def hooksCalled_def)

lemma confirm_throws: "isSymptomModalOpen st \<Longrightarrow> confirm st = Inl RenderedFewerHooks"
  by (simp add: confirm_def rerender_def handleConfirm_def onClose_def hooksCalled_def)

lemma openSelector_throws: "\<not> isSymptomModalOpen st \<Longrightarrow> openSelector st = Inl RenderedMoreHooks"
  by (simp add: openSelector_def rerender_def hooksCalled_def)

lemma toggleCategory_frame:
  "selected (toggleCategory cat st) = selected st"
  "searchQuery (toggleCategory cat st) = searchQuery st"
  "isSymptomModalOpen (toggleCategory cat st) = isSymptomModalOpen st"
  by (simp_all add: toggleCategory_def Let_def)

lemma trim_xyz123: "trim (str ''xyz123'') = str ''xyz123''"
  by (simp add: trim_def str_def isWhiteSpace_def)

lemma score_Pain_xyz123: "getMatchScore asciiToLowerCase (str ''Pain'') (str ''xyz123'') = Some 0"
  by code_simp

lemma eff_xyz123_Back_pain:
  "spec_effective_score asciiToLowerCase (str ''xyz123'') (str ''Back pain'') = 0"
proof (rule effective_from_scoreItem)
  show "scoreItem asciiToLowerCase (str ''xyz123'') (str ''Back pain'') = Some (str ''Back pain'', 0)"
    by code_simp
qed

lemma eff_xyz123_Joint_pain:
  "spec_effective_score asciiToLowerCase (str ''xyz123'') (str ''Joint pain'') = 0"
proof (rule effective_from_scoreItem)
  show "scoreItem asciiToLowerCase (str ''xyz123'') (str ''Joint pain'') = Some (str ''Joint pain'', 0)"
    by code_simp
qed

lemma eff_xyz123_Muscle_ache:
  "spec_effective_score asciiToLowerCase (str ''xyz123'') (str ''Muscle ache'') = 0"
proof (rule effective_from_scoreItem)
  show "scoreItem asciiToLowerCase (str ''xyz123'') (str ''Muscle ache'') = Some (str ''Muscle ache'', 0)"
    by code_simp
qed

lemma eff_xyz123_Neck_pain:
  "spec_effective_score asciiToLowerCase (str ''xyz123'') (str ''Neck pain'') = 0"
proof (rule effective_from_scoreItem)
  show "scoreItem asciiToLowerCase (str ''xyz123'') (str ''Neck pain'') = Some (str ''Neck pain'', 0)"
    by code_simp
qed

lemma eff_xyz123_Sharp_pain:
  "spec_effective_score asciiToLowerCase (str ''xyz123'') (str ''Sharp pain'') = 0"
proof (rule effective_from_scoreItem)
  show "scoreItem asciiToLowerCase (str ''xyz123'') (str ''Sharp pain'') = Some (str ''Sharp pain'', 0)"
    by code_simp
qed

lemma eff_xyz123_Dull_ache:
  "spec_effective_score asciiToLowerCase (str ''xyz123'') (str ''Dull ache'') = 0"
proof (rule effective_from_scoreItem)
  show "scoreItem asciiToLowerCase (str ''xyz123'') (str ''Dull ache'') = Some (str ''Dull ache'', 0)"
    by code_simp
qed

lemma ranked_xyz123_Pain:
  "ranked asciiToLowerCase (str ''xyz123'')
     [str ''Back pain'', str ''Joint pain'', str ''Muscle ache'', str ''Neck pain'',
      str ''Sharp pain'', str ''Dull ache''] = []"
  by (simp add: ranked_def eff_xyz123_Back_pain eff_xyz123_Joint_pain eff_xyz123_Muscle_ache
      eff_xyz123_Neck_pain eff_xyz123_Sharp_pain eff_xyz123_Dull_ache)

lemma shown_xyz123_in_Pain:
  "displayedCategories asciiToLowerCase
     (setSearchQuery (str ''xyz123'') (toggleCategory (str ''Pain'') initial)) = Some []"
proof -
  let ?st = "setSearchQuery (str ''xyz123'') (toggleCategory (str ''Pain'') initial)"
  have "activeCategories ?st = [str ''Pain'']"
    by (simp add: setSearchQuery_def toggleCategory_active initial_def str_inject Let_def)
  then have act: "isActive ?st c = (c = str ''Pain'')" for c
    by (auto simp add: isActive_def set_has_def str_inject)
  have q: "trim (searchQuery ?st) = str ''xyz123''"
    by (simp add: setSearchQuery_def trim_xyz123)
  show ?thesis
    by (simp add: displayedCategories_visible CATEGORIES_def List.map_filter_simps visible_def
        act q str_inject str_not_Nil ranked_xyz123_Pain
        score_from_getMatchScore [OF score_Pain_xyz123])
qed

lemma distinct_CATEGORIES: "distinct (map fst CATEGORIES)"
  by (simp add: CATEGORIES_def str_inject)

lemma visible_keeps_name: "visible toLowerCase st entry = Some shown \<Longrightarrow> fst shown = fst entry"
  by (cases entry) (auto simp add: visible_def split: if_splits)

lemma map_filter_no_name:
  "c \<notin> fst ` set xs \<Longrightarrow> (\<And>e e'. g e = Some e' \<Longrightarrow> fst e' = fst e)
     \<Longrightarrow> filter (\<lambda>e. fst e = c) (List.map_filter g xs) = []"
  by (induction xs) (auto simp add: List.map_filter_simps split: option.splits)

lemma map_filter_one_name:
  assumes "distinct (map fst xs)" and "x \<in> set xs"
    and "\<And>e e'. g e = Some e' \<Longrightarrow> fst e' = fst e"
  shows "filter (\<lambda>e. fst e = fst x) (List.map_filter g xs)
           = (case g x of None \<Rightarrow> [] | Some e \<Rightarrow> [e])"
  using assms(1,2)
proof (induction xs)
  case Nil
  then show ?case by simp
next
  case (Cons y ys)
  show ?case
  proof (cases "x = y")
    case True
    then have "fst x \<notin> fst ` set ys" using Cons.prems(1) by simp
    then have "filter (\<lambda>e. fst e = fst x) (List.map_filter g ys) = []"
      using assms(3) by (rule map_filter_no_name)
    then show ?thesis using True assms(3) [of y]
      by (auto simp add: List.map_filter_simps split: option.splits)
  next
    case False
    then have in_ys: "x \<in> set ys" using Cons.prems(2) by simp
    then have "fst x \<in> set (map fst ys)" by simp
    moreover have "fst y \<notin> set (map fst ys)" using Cons.prems(1) by simp
    ultimately have ne: "fst y \<noteq> fst x" by metis
    have ih: "filter (\<lambda>e. fst e = fst x) (List.map_filter g ys)
           = (case g x of None \<Rightarrow> [] | Some e \<Rightarrow> [e])"
      using Cons.IH Cons.prems(1) in_ys by simp
    show ?thesis using ne ih assms(3) [of y]
      by (auto simp add: List.map_filter_simps split: option.splits)
  qed
qed

lemma shown_under_name:
  assumes "(category, items) \<in> set CATEGORIES"
  shows "filter (\<lambda>entry. fst entry = category) (List.map_filter (visible toLowerCase st) CATEGORIES)
           = (case visible toLowerCase st (category, items) of None \<Rightarrow> [] | Some e \<Rightarrow> [e])"
  using map_filter_one_name [OF distinct_CATEGORIES assms, of "visible toLowerCase st"]
    visible_keeps_name by simp

lemma ca_in_Cardiovascular_reached:
  "setSearchQuery (str ''ca'') (toggleCategory (str ''Cardiovascular'') initial)
     = ca_in_Cardiovascular"
  by (simp add: ca_in_Cardiovascular_def setSearchQuery_def toggleCategory_def initial_def
      Let_def set_has_def set_delete_def set_add_def set_size_def str_inject)

lemma Cardiovascular_in_CATEGORIES:
  "(str ''Cardiovascular'', [str ''Chest pain'', str ''Palpitations'', str ''Fast heart rate'',
      str ''Swollen legs'', str ''Cold extremities'', str ''Irregular heartbeat''])
     \<in> set CATEGORIES"
  by (simp add: CATEGORIES_def)

lemma trim_ca: "trim (str ''ca'') = str ''ca''"
  by (simp add: trim_def str_def isWhiteSpace_def)

lemma score_Cardiovascular_ca:
  "getMatchScore asciiToLowerCase (str ''Cardiovascular'') (str ''ca'') = Some 80"
  by code_simp

lemma eff_ca_Chest_pain:
  "spec_effective_score asciiToLowerCase (str ''ca'') (str ''Chest pain'') = 0"
proof (rule effective_from_scoreItem)
  show "scoreItem asciiToLowerCase (str ''ca'') (str ''Chest pain'') = Some (str ''Chest pain'', 0)"
    by code_simp
qed

lemma eff_ca_Palpitations:
  "spec_effective_score asciiToLowerCase (str ''ca'') (str ''Palpitations'') = 0"
proof (rule effective_from_scoreItem)
  show "scoreItem asciiToLowerCase (str ''ca'') (str ''Palpitations'') = Some (str ''Palpitations'', 0)"
    by code_simp
qed

lemma eff_ca_Fast_heart_rate:
  "spec_effective_score asciiToLowerCase (str ''ca'') (str ''Fast heart rate'') = 0"
proof (rule effective_from_scoreItem)
  show "scoreItem asciiToLowerCase (str ''ca'') (str ''Fast heart rate'')
          = Some (str ''Fast heart rate'', 0)"
    by code_simp
qed

lemma eff_ca_Swollen_legs:
  "spec_effective_score asciiToLowerCase (str ''ca'') (str ''Swollen legs'') = 0"
proof (rule effective_from_scoreItem)
  show "scoreItem asciiToLowerCase (str ''ca'') (str ''Swollen legs'') = Some (str ''Swollen legs'', 0)"
    by code_simp
qed

lemma eff_ca_Cold_extremities:
  "spec_effective_score asciiToLowerCase (str ''ca'') (str ''Cold extremities'') = 0"
proof (rule effective_from_scoreItem)
  show "scoreItem asciiToLowerCase (str ''ca'') (str ''Cold extremities'')
          = Some (str ''Cold extremities'', 0)"
    by code_simp
qed

lemma eff_ca_Irregular_heartbeat:
  "spec_effective_score asciiToLowerCase (str ''ca'') (str ''Irregular heartbeat'') = 0"
proof (rule effective_from_scoreItem)
  show "scoreItem asciiToLowerCase (str ''ca'') (str ''Irregular heartbeat'')
          = Some (str ''Irregular heartbeat'', 0)"
    by code_simp
qed

lemma ranked_ca_Cardiovascular:
  "ranked asciiToLowerCase (str ''ca'')
     [str ''Chest pain'', str ''Palpitations'', str ''Fast heart rate'', str ''Swollen legs'',
      str ''Cold extremities'', str ''Irregular heartbeat''] = []"
  by (simp add: ranked_def eff_ca_Chest_pain eff_ca_Palpitations eff_ca_Fast_heart_rate
      eff_ca_Swollen_legs eff_ca_Cold_extremities eff_ca_Irregular_heartbeat)

lemma isActive_ca_in_Cardiovascular:
  "isActive ca_in_Cardiovascular c = (c = str ''Cardiovascular'')"
  by (auto simp add: ca_in_Cardiovascular_def isActive_def set_has_def str_inject)

lemma searchQuery_ca_in_Cardiovascular: "trim (searchQuery ca_in_Cardiovascular) = str ''ca''"
  by (simp add: ca_in_Cardiovascular_def trim_ca)

lemma shown_ca_in_Cardiovascular:
  "displayedCategories asciiToLowerCase ca_in_Cardiovascular = Some []"
  by (simp add: displayedCategories_visible CATEGORIES_def List.map_filter_simps visible_def
      isActive_ca_in_Cardiovascular searchQuery_ca_in_Cardiovascular str_inject str_not_Nil
      ranked_ca_Cardiovascular score_from_getMatchScore [OF score_Cardiovascular_ca])

lemma shown_exact_pain:
  "displayedCategories asciiToLowerCase (setSearchQuery (str ''pain'') pa_in_Pain)
     = Some [(str ''Pain'', [str ''Back pain'', str ''Joint pain'', str ''Muscle ache'',
               str ''Neck pain'', str ''Sharp pain'', str ''Dull ache''])]"
proof -
  let ?st = "setSearchQuery (str ''pain'') pa_in_Pain"
  have act: "isActive ?st c = (c = str ''Pain'')" for c
    by (auto simp add: setSearchQuery_def pa_in_Pain_def isActive_def set_has_def str_inject)
  have q: "trim (searchQuery ?st) = str ''pain''"
    by (simp add: setSearchQuery_def trim_pain)
  have s: "spec_score asciiToLowerCase (str ''Pain'') (str ''pain'') = 100"
    by (simp add: spec_score_def Let_def lower_Pain lower_pain)
  show ?thesis
    by (simp add: displayedCategories_visible CATEGORIES_def List.map_filter_simps visible_def
        act q str_inject str_not_Nil s)
qed

section \<open>The claims\<close>

text \<open>
  Claim C1, as stated, gives \<^verbatim>\<open>getMatchScore("Fever", "feve")\<close> the fuzzy score 40.
  On the code the score is 80: \<open>feve\<close> is a prefix of \<open>fever\<close>, and the prefix tier
  (line 868) returns before the fuzzy tier is reached.
\<close>

theorem score_Fever_feve_counterexample:
  "getMatchScore asciiToLowerCase (str ''Fever'') (str ''feve'') = Some 80
   \<and> getMatchScore asciiToLowerCase (str ''Fever'') (str ''feve'') \<noteq> Some 40"
  by (simp add: score_Fever_feve)

text \<open>
  Claim C1, amended. For the query \<open>feve\<close> against the symptom \<open>Fever\<close>: the edit distance
  between the lower-cased strings is 1, \<open>feve\<close> is a prefix of \<open>fever\<close>, the score is 80,
  and with every category active the category \<open>General\<close> is displayed with \<open>Fever\<close>
  among its symptoms.
\<close>

theorem Fever_found_for_feve:
  "levenshteinDistance (asciiToLowerCase (str ''feve'')) (asciiToLowerCase (str ''Fever'')) = Some 1
   \<and> startsWith (asciiToLowerCase (str ''Fever'')) (asciiToLowerCase (str ''feve''))
   \<and> getMatchScore asciiToLowerCase (str ''Fever'') (str ''feve'') = Some 80
   \<and> (\<exists>shown found. displayedCategories asciiToLowerCase (setSearchQuery (str ''feve'') initial) = Some shown
         \<and> (str ''General'', found) \<in> set shown \<and> str ''Fever'' \<in> set found)"
proof -
  let ?st = "setSearchQuery (str ''feve'') initial"
  have 1: "levenshteinDistance (asciiToLowerCase (str ''feve'')) (asciiToLowerCase (str ''Fever'')) = Some 1"
    by code_simp
  have 2: "startsWith (asciiToLowerCase (str ''Fever'')) (asciiToLowerCase (str ''feve''))"
    by code_simp
  have q: "trim (searchQuery ?st) = str ''feve''"
    by (simp add: setSearchQuery_def trim_feve)
  have a: "isActive ?st (str ''General'')"
    by (simp add: isActive_def setSearchQuery_def initial_def set_has_def)
  have "\<exists>shown found. displayedCategories asciiToLowerCase ?st = Some shown
           \<and> (str ''General'', found) \<in> set shown \<and> str ''Fever'' \<in> set found"
  proof (rule shown_item [OF General_in_CATEGORIES a])
    show "trim (searchQuery ?st) \<noteq> []" by (simp add: q str_not_Nil)
    show "spec_score asciiToLowerCase (str ''General'') (trim (searchQuery ?st)) < 90"
      by (simp add: q score_from_getMatchScore [OF score_General_feve])
    show "str ''Fever'' \<in> set [str ''Fever'', str ''Fatigue'', str ''Chills'', str ''Weakness'',
      str ''Dizziness'', str ''Insomnia'', str ''Weight loss'', str ''Night sweats'',
      str ''Sweating'']" by simp
    show "0 < spec_effective_score asciiToLowerCase (trim (searchQuery ?st)) (str ''Fever'')"
      by (simp add: q effective_from_scoreItem [OF scoreItem_Fever_feve])
  qed
  then show ?thesis using 1 2 score_Fever_feve by blast
qed

text \<open>
  Claim C2, as stated, lets a query that is a prefix of a category name bypass the
  filtering of the items. With the chip \<open>Pain\<close> active and the query \<open>pa\<close>, a prefix of
  the category name, the category scores 80 and is displayed with five of its six
  symptoms, in the order of their scores: \<open>Dull ache\<close> is dropped and \<open>Muscle ache\<close>
  (synonym \<open>painful muscles\<close>) moves to the front.
\<close>

theorem prefix_of_category_name_counterexample:
  "(str ''Pain'', [str ''Back pain'', str ''Joint pain'', str ''Muscle ache'', str ''Neck pain'',
      str ''Sharp pain'', str ''Dull ache'']) \<in> set CATEGORIES
   \<and> startsWith (asciiToLowerCase (str ''Pain'')) (asciiToLowerCase (str ''pa''))
   \<and> getMatchScore asciiToLowerCase (str ''Pain'') (str ''pa'') = Some 80
   \<and> displayedCategories asciiToLowerCase
        (setSearchQuery (str ''pa'') (toggleCategory (str ''Pain'') initial))
      = Some [(str ''Pain'', [str ''Muscle ache'', str ''Back pain'', str ''Joint pain'',
                str ''Neck pain'', str ''Sharp pain''])]"
proof -
  have "startsWith (asciiToLowerCase (str ''Pain'')) (asciiToLowerCase (str ''pa''))"
    by code_simp
  then show ?thesis
    using Pain_in_CATEGORIES score_Pain_pa shown_pa_in_Pain
    by (simp only: pa_in_Pain_reached)
qed

text \<open>
  Claim C2, amended. For an active category and a non-empty trimmed query: when the
  lower-cased query equals the lower-cased name, the score of the category name is 100;
  the score is at least 90 exactly in that case; a query that is only a prefix of the
  name scores 80. The callback returns the category with all of its items, in their
  order, exactly in the case of equality; otherwise it returns the items that survive
  the ranking (\<open>ranked\<close>), or \<^verbatim>\<open>null\<close> when none does. For a category of the taxonomy
  the displayed list holds under its name: the entry with all items in the case of
  equality, and otherwise the entry with the surviving items, or nothing at all when
  none survives.
\<close>

theorem category_bypass_only_on_exact_match:
  assumes "isActive st category"
    and "trim (searchQuery st) = query"
    and "query \<noteq> []"
  shows "(toLowerCase category = toLowerCase query
          \<longrightarrow> getMatchScore toLowerCase category query = Some 100)
    \<and> (\<exists>s. getMatchScore toLowerCase category query = Some s
            \<and> (90 \<le> s) = (toLowerCase category = toLowerCase query))
    \<and> (toLowerCase category \<noteq> toLowerCase query
         \<and> startsWith (toLowerCase category) (toLowerCase query)
        \<longrightarrow> getMatchScore toLowerCase category query = Some 80)
    \<and> displayCategory toLowerCase st (category, items)
        = Some (if toLowerCase category = toLowerCase query then Some (category, items)
                else if ranked toLowerCase query items = [] then None
                else Some (category, ranked toLowerCase query items))
    \<and> ((category, items) \<in> set CATEGORIES \<longrightarrow>
          (\<exists>shown. displayedCategories toLowerCase st = Some shown
             \<and> filter (\<lambda>entry. fst entry = category) shown
                 = (if toLowerCase category = toLowerCase query then [(category, items)]
                    else if ranked toLowerCase query items = [] then []
                    else [(category, ranked toLowerCase query items)])))"
proof -
  have 0: "toLowerCase category = toLowerCase query
          \<longrightarrow> getMatchScore toLowerCase category query = Some 100"
    by (simp add: getMatchScore_def Let_def)
  have 1: "\<exists>s. getMatchScore toLowerCase category query = Some s
            \<and> (90 \<le> s) = (toLowerCase category = toLowerCase query)"
    by (simp add: getMatchScore_spec spec_score_exact)
  have 2: "toLowerCase category \<noteq> toLowerCase query
         \<and> startsWith (toLowerCase category) (toLowerCase query)
        \<longrightarrow> getMatchScore toLowerCase category query = Some 80"
    by (simp add: getMatchScore_def Let_def)
  have 3: "displayCategory toLowerCase st (category, items)
        = Some (if toLowerCase category = toLowerCase query then Some (category, items)
                else if ranked toLowerCase query items = [] then None
                else Some (category, ranked toLowerCase query items))"
    using assms by (simp add: displayCategory_spec spec_score_exact)
  have v: "visible toLowerCase st (category, items)
        = (if toLowerCase category = toLowerCase query then Some (category, items)
                else if ranked toLowerCase query items = [] then None
                else Some (category, ranked toLowerCase query items))"
    using assms by (simp add: visible_def spec_score_exact)
  have 4: "(category, items) \<in> set CATEGORIES \<longrightarrow>
          (\<exists>shown. displayedCategories toLowerCase st = Some shown
             \<and> filter (\<lambda>entry. fst entry = category) shown
                 = (if toLowerCase category = toLowerCase query then [(category, items)]
                    else if ranked toLowerCase query items = [] then []
                    else [(category, ranked toLowerCase query items)]))"
  proof
    assume m: "(category, items) \<in> set CATEGORIES"
    have "filter (\<lambda>entry. fst entry = category)
            (List.map_filter (visible toLowerCase st) CATEGORIES)
          = (if toLowerCase category = toLowerCase query then [(category, items)]
                    else if ranked toLowerCase query items = [] then []
                    else [(category, ranked toLowerCase query items)])"
      by (simp only: shown_under_name [OF m] v) simp
    then show "\<exists>shown. displayedCategories toLowerCase st = Some shown
             \<and> filter (\<lambda>entry. fst entry = category) shown
                 = (if toLowerCase category = toLowerCase query then [(category, items)]
                    else if ranked toLowerCase query items = [] then []
                    else [(category, ranked toLowerCase query items)])"
      by (simp add: displayedCategories_visible)
  qed
  from 0 1 2 3 4 show ?thesis by (intro conjI)
qed

text \<open>
  Claim C2, the amended statement at concrete inputs: the prefix \<open>pa\<close> of \<open>Pain\<close>, where
  the items are filtered and ranked; the exact match \<open>pain\<close>, where all six items are
  displayed in their order; and the prefix \<open>ca\<close> of \<open>Cardiovascular\<close>, where no item
  survives and the category is not displayed.
\<close>

theorem category_bypass_only_on_exact_match_witness:
  "isActive pa_in_Pain (str ''Pain'')
   \<and> trim (searchQuery pa_in_Pain) = str ''pa''
   \<and> asciiToLowerCase (str ''Pain'') \<noteq> asciiToLowerCase (str ''pa'')
   \<and> startsWith (asciiToLowerCase (str ''Pain'')) (asciiToLowerCase (str ''pa''))
   \<and> getMatchScore asciiToLowerCase (str ''Pain'') (str ''pa'') = Some 80
   \<and> displayCategory asciiToLowerCase pa_in_Pain
        (str ''Pain'', [str ''Back pain'', str ''Joint pain'', str ''Muscle ache'',
           str ''Neck pain'', str ''Sharp pain'', str ''Dull ache''])
      = Some (Some (str ''Pain'', [str ''Muscle ache'', str ''Back pain'', str ''Joint pain'',
           str ''Neck pain'', str ''Sharp pain'']))
   \<and> displayedCategories asciiToLowerCase pa_in_Pain
      = Some [(str ''Pain'', [str ''Muscle ache'', str ''Back pain'', str ''Joint pain'',
           str ''Neck pain'', str ''Sharp pain''])]
   \<and> asciiToLowerCase (str ''Pain'') = asciiToLowerCase (str ''pain'')
   \<and> getMatchScore asciiToLowerCase (str ''Pain'') (str ''pain'') = Some 100
   \<and> displayCategory asciiToLowerCase (setSearchQuery (str ''pain'') pa_in_Pain)
        (str ''Pain'', [str ''Back pain'', str ''Joint pain'', str ''Muscle ache'',
           str ''Neck pain'', str ''Sharp pain'', str ''Dull ache''])
      = Some (Some (str ''Pain'', [str ''Back pain'', str ''Joint pain'', str ''Muscle ache'',
           str ''Neck pain'', str ''Sharp pain'', str ''Dull ache'']))
   \<and> displayedCategories asciiToLowerCase (setSearchQuery (str ''pain'') pa_in_Pain)
      = Some [(str ''Pain'', [str ''Back pain'', str ''Joint pain'', str ''Muscle ache'',
           str ''Neck pain'', str ''Sharp pain'', str ''Dull ache''])]
   \<and> isActive ca_in_Cardiovascular (str ''Cardiovascular'')
   \<and> trim (searchQuery ca_in_Cardiovascular) = str ''ca''
   \<and> asciiToLowerCase (str ''Cardiovascular'') \<noteq> asciiToLowerCase (str ''ca'')
   \<and> startsWith (asciiToLowerCase (str ''Cardiovascular'')) (asciiToLowerCase (str ''ca''))
   \<and> getMatchScore asciiToLowerCase (str ''Cardiovascular'') (str ''ca'') = Some 80
   \<and> displayCategory asciiToLowerCase ca_in_Cardiovascular
        (str ''Cardiovascular'', [str ''Chest pain'', str ''Palpitations'',
           str ''Fast heart rate'', str ''Swollen legs'', str ''Cold extremities'',
           str ''Irregular heartbeat'']) = Some None
   \<and> displayedCategories asciiToLowerCase ca_in_Cardiovascular = Some []"
proof -
  let ?pain = "[str ''Back pain'', str ''Joint pain'', str ''Muscle ache'',
           str ''Neck pain'', str ''Sharp pain'', str ''Dull ache'']"
  let ?cardio = "[str ''Chest pain'', str ''Palpitations'',
           str ''Fast heart rate'', str ''Swollen legs'', str ''Cold extremities'',
           str ''Irregular heartbeat'']"
  let ?exact = "setSearchQuery (str ''pain'') pa_in_Pain"
  have a: "isActive pa_in_Pain (str ''Pain'')" by (simp add: isActive_pa_in_Pain)
  have n: "str ''pa'' \<noteq> []" by (simp add: str_not_Nil)
  have d: "asciiToLowerCase (str ''Pain'') \<noteq> asciiToLowerCase (str ''pa'')"
    by (simp add: asciiToLowerCase_def str_def)
  have p: "startsWith (asciiToLowerCase (str ''Pain'')) (asciiToLowerCase (str ''pa''))"
    by code_simp
  have a': "isActive ?exact (str ''Pain'')"
    by (simp add: isActive_def setSearchQuery_def pa_in_Pain_def set_has_def)
  have q': "trim (searchQuery ?exact) = str ''pain''"
    by (simp add: setSearchQuery_def trim_pain)
  have n': "str ''pain'' \<noteq> []" by (simp add: str_not_Nil)
  have e: "asciiToLowerCase (str ''Pain'') = asciiToLowerCase (str ''pain'')"
    by (simp add: lower_Pain lower_pain)
  have a'': "isActive ca_in_Cardiovascular (str ''Cardiovascular'')"
    by (simp add: isActive_ca_in_Cardiovascular)
  have n'': "str ''ca'' \<noteq> []" by (simp add: str_not_Nil)
  have d'': "asciiToLowerCase (str ''Cardiovascular'') \<noteq> asciiToLowerCase (str ''ca'')"
    by (simp add: asciiToLowerCase_def str_def)
  have p'': "startsWith (asciiToLowerCase (str ''Cardiovascular'')) (asciiToLowerCase (str ''ca''))"
    by code_simp
  note kept = category_bypass_only_on_exact_match
    [OF a searchQuery_pa_in_Pain n, of asciiToLowerCase ?pain]
  note exact = category_bypass_only_on_exact_match
    [OF a' q' n', of asciiToLowerCase ?pain]
  note dropped = category_bypass_only_on_exact_match
    [OF a'' searchQuery_ca_in_Cardiovascular n'', of asciiToLowerCase ?cardio]
  have 1: "getMatchScore asciiToLowerCase (str ''Pain'') (str ''pa'') = Some 80"
    using kept d p by blast
  have 2: "getMatchScore asciiToLowerCase (str ''Pain'') (str ''pain'') = Some 100"
    using exact e by blast
  have 3: "displayCategory asciiToLowerCase ?exact (str ''Pain'', ?pain)
      = Some (Some (str ''Pain'', ?pain))"
    using exact e by simp
  have 4: "getMatchScore asciiToLowerCase (str ''Cardiovascular'') (str ''ca'') = Some 80"
    using dropped d'' p'' by blast
  have 5: "displayCategory asciiToLowerCase ca_in_Cardiovascular (str ''Cardiovascular'', ?cardio)
      = Some None"
    using dropped d'' by (simp add: ranked_ca_Cardiovascular)
  show ?thesis
    using a searchQuery_pa_in_Pain d p 1 displayCategory_pa_in_Pain shown_pa_in_Pain
      e 2 3 shown_exact_pain a'' searchQuery_ca_in_Cardiovascular d'' p'' 4 5
      shown_ca_in_Cardiovascular
    by (intro conjI) assumption+
qed


text \<open>
  Claim C4. When the query is empty or consists of white space only, then for every
  selection of active categories the displayed list is the taxonomy restricted to the
  active categories: each entry unchanged, its items in the order of the declaration,
  the entries in the order of the declaration. The result does not depend on
  \<open>toLowerCase\<close>, the only access the scoring has to the strings.
\<close>

theorem displayedCategories_empty_query:
  assumes "\<forall>c\<in>set (searchQuery st). isWhiteSpace c"
  shows "displayedCategories toLowerCase st
           = Some (filter (\<lambda>entry. isActive st (fst entry)) CATEGORIES)"
proof -
  have e: "trim (searchQuery st) = []" using assms by (simp add: trim_empty_iff)
  have "List.map_filter (visible toLowerCase st) CATEGORIES
          = filter (\<lambda>entry. isActive st (fst entry)) CATEGORIES"
    by (rule map_filter_all_or_nothing) (auto simp: visible_def e)
  then show ?thesis by (simp only: displayedCategories_visible)
qed

text \<open>
  Claim C4 at a concrete input: the chip \<open>Skin\<close> is active and the query is three
  spaces.
\<close>

theorem displayedCategories_empty_query_witness:
  "trim (searchQuery (setSearchQuery (str ''   '') (toggleCategory (str ''Skin'') initial))) = []
   \<and> displayedCategories asciiToLowerCase
        (setSearchQuery (str ''   '') (toggleCategory (str ''Skin'') initial))
      = Some [(str ''Skin'', [str ''Rash'', str ''Itching'', str ''Redness'', str ''Swelling'',
                str ''Bruising'', str ''Dry skin'', str ''Hives'', str ''Watery eyes''])]"
proof -
  let ?st = "setSearchQuery (str ''   '') (toggleCategory (str ''Skin'') initial)"
  have q: "searchQuery ?st = str ''   ''"
    by (simp add: setSearchQuery_def)
  have blank: "\<forall>c\<in>set (searchQuery ?st). isWhiteSpace c"
    by (simp only: q) (simp add: str_def isWhiteSpace_def)
  have "activeCategories ?st = [str ''Skin'']"
    by (simp add: setSearchQuery_def toggleCategory_active initial_def str_inject Let_def)
  then have act: "isActive ?st c = (c = str ''Skin'')" for c
    by (auto simp add: isActive_def set_has_def str_inject)
  have "filter (\<lambda>entry. isActive ?st (fst entry)) CATEGORIES
      = [(str ''Skin'', [str ''Rash'', str ''Itching'', str ''Redness'', str ''Swelling'',
                str ''Bruising'', str ''Dry skin'', str ''Hives'', str ''Watery eyes''])]"
    by (simp add: act CATEGORIES_def str_inject)
  moreover have "trim (searchQuery ?st) = []" using blank by (simp only: trim_empty_iff)
  ultimately show ?thesis
    using displayedCategories_empty_query [OF blank, of asciiToLowerCase] by simp
qed

text \<open>
  Claim C5. For an active category whose name scores below 90 against the non-empty
  trimmed query: the score the source attaches to an item is the maximum of the match
  scores of its name and of its registered synonyms (of the name alone when none is
  registered); the callback returns the survivors, or \<^verbatim>\<open>null\<close> when there is none; the
  survivors are exactly the items of positive effective score, each as often as it is
  listed; they are in descending order of effective score; and the items of any one
  score keep the order of the declaration.
\<close>

theorem item_level_ranking:
  assumes "isActive st category"
    and "trim (searchQuery st) = query"
    and "query \<noteq> []"
    and "getMatchScore toLowerCase category query = Some categoryScore"
    and "categoryScore < 90"
  shows "\<exists>score effective survivors.
      (\<forall>candidate. getMatchScore toLowerCase candidate query = Some (score candidate))
    \<and> (\<forall>item. effective item = Max (insert (score item) (score ` set (synonymsOf item))))
    \<and> (\<forall>item. scoreItem toLowerCase query item = Some (item, effective item))
    \<and> displayCategory toLowerCase st (category, items)
         = Some (if survivors = [] then None else Some (category, survivors))
    \<and> mset survivors = mset (filter (\<lambda>item. 0 < effective item) items)
    \<and> sorted_wrt (\<lambda>x y. effective y \<le> effective x) survivors
    \<and> (\<forall>k. filter (\<lambda>item. effective item = k) survivors
             = filter (\<lambda>item. effective item = k \<and> 0 < k) items)"
proof -
  let ?score = "\<lambda>candidate. spec_score toLowerCase candidate query"
  let ?eff = "spec_effective_score toLowerCase query"
  let ?survivors = "ranked toLowerCase query items"
  have low: "\<not> 90 \<le> spec_score toLowerCase category query"
    using assms(4,5) by (simp add: getMatchScore_spec)
  have 1: "\<forall>candidate. getMatchScore toLowerCase candidate query = Some (?score candidate)"
    by (simp add: getMatchScore_spec)
  have 2: "\<forall>item. ?eff item = Max (insert (?score item) (?score ` set (synonymsOf item)))"
    by (simp add: spec_effective_score_def)
  have 3: "\<forall>item. scoreItem toLowerCase query item = Some (item, ?eff item)"
    by (simp add: scoreItem_spec)
  have 4: "displayCategory toLowerCase st (category, items)
         = Some (if ?survivors = [] then None else Some (category, ?survivors))"
    using assms(1,2,3) low by (simp add: displayCategory_spec)
  have 5: "mset ?survivors = mset (filter (\<lambda>item. 0 < ?eff item) items)"
    by (rule mset_ranked)
  have 6: "sorted_wrt (\<lambda>x y. ?eff y \<le> ?eff x) ?survivors"
    by (rule sorted_ranked)
  have 7: "\<forall>k. filter (\<lambda>item. ?eff item = k) ?survivors
             = filter (\<lambda>item. ?eff item = k \<and> 0 < k) items"
    by (simp add: stable_ranked)
  show ?thesis
    apply (rule exI [where x = ?score])
    apply (rule exI [where x = ?eff])
    apply (rule exI [where x = ?survivors])
    apply (intro conjI)
          apply (rule 1)
         apply (rule 2)
        apply (rule 3)
       apply (rule 4)
      apply (rule 5)
     apply (rule 6)
    apply (rule 7)
    done
qed

text \<open>
  Claim C5 at a concrete input: the category \<open>Pain\<close> (score 80) and the query \<open>pa\<close>.
\<close>

theorem item_level_ranking_witness:
  "isActive pa_in_Pain (str ''Pain'')
   \<and> trim (searchQuery pa_in_Pain) = str ''pa''
   \<and> str ''pa'' \<noteq> []
   \<and> getMatchScore asciiToLowerCase (str ''Pain'') (str ''pa'') = Some 80
   \<and> displayCategory asciiToLowerCase pa_in_Pain
        (str ''Pain'', [str ''Back pain'', str ''Joint pain'', str ''Muscle ache'',
           str ''Neck pain'', str ''Sharp pain'', str ''Dull ache''])
      = Some (Some (str ''Pain'', [str ''Muscle ache'', str ''Back pain'', str ''Joint pain'',
           str ''Neck pain'', str ''Sharp pain'']))
   \<and> (\<exists>score effective survivors.
      (\<forall>candidate. getMatchScore asciiToLowerCase candidate (str ''pa'') = Some (score candidate))
    \<and> (\<forall>item. effective item = Max (insert (score item) (score ` set (synonymsOf item))))
    \<and> (\<forall>item. scoreItem asciiToLowerCase (str ''pa'') item = Some (item, effective item))
    \<and> displayCategory asciiToLowerCase pa_in_Pain
          (str ''Pain'', [str ''Back pain'', str ''Joint pain'', str ''Muscle ache'',
             str ''Neck pain'', str ''Sharp pain'', str ''Dull ache''])
         = Some (if survivors = [] then None else Some (str ''Pain'', survivors))
    \<and> mset survivors = mset (filter (\<lambda>item. 0 < effective item)
          [str ''Back pain'', str ''Joint pain'', str ''Muscle ache'',
             str ''Neck pain'', str ''Sharp pain'', str ''Dull ache''])
    \<and> sorted_wrt (\<lambda>x y. effective y \<le> effective x) survivors
    \<and> (\<forall>k. filter (\<lambda>item. effective item = k) survivors
             = filter (\<lambda>item. effective item = k \<and> 0 < k)
          [str ''Back pain'', str ''Joint pain'', str ''Muscle ache'',
             str ''Neck pain'', str ''Sharp pain'', str ''Dull ache'']))"
proof -
  have a: "isActive pa_in_Pain (str ''Pain'')" by (simp add: isActive_pa_in_Pain)
  have n: "str ''pa'' \<noteq> []" by (simp add: str_not_Nil)
  have low: "(80::int) < 90" by simp
  show ?thesis
    using item_level_ranking [OF a searchQuery_pa_in_Pain n score_Pain_pa low,
        of "[str ''Back pain'', str ''Joint pain'', str ''Muscle ache'',
             str ''Neck pain'', str ''Sharp pain'', str ''Dull ache'']"]
      a n searchQuery_pa_in_Pain score_Pain_pa displayCategory_pa_in_Pain
    by (intro conjI) assumption+
qed

text \<open>
  Claim C6. When the trimmed query equals, case-insensitively, the name of a category of
  the taxonomy that passes the filter of the active categories, the displayed list
  contains that category with all of its symptoms in their order, whatever they score
  themselves.
\<close>

theorem displayedCategories_exact_category_name:
  assumes "(category, items) \<in> set CATEGORIES"
    and "isActive st category"
    and "toLowerCase (trim (searchQuery st)) = toLowerCase category"
  shows "\<exists>shown. displayedCategories toLowerCase st = Some shown \<and> (category, items) \<in> set shown"
proof -
  have "90 \<le> spec_score toLowerCase category (trim (searchQuery st))"
    using assms(3) by (simp add: spec_score_exact)
  then have "visible toLowerCase st (category, items) = Some (category, items)"
    using assms(2) by (simp add: visible_def)
  then have "(category, items) \<in> set (List.map_filter (visible toLowerCase st) CATEGORIES)"
    using assms(1) by (auto simp: in_map_filter_iff)
  then show ?thesis by (simp add: displayedCategories_visible)
qed

text \<open>
  Claim C6 at a concrete input: the query \<open>general\<close> with blanks around it, every
  category active. \<open>Fever\<close> scores 0 against this query and is displayed all the same.
\<close>

theorem displayedCategories_exact_category_name_witness:
  "isActive (setSearchQuery (str '' general '') initial) (str ''General'')
   \<and> asciiToLowerCase (trim (searchQuery (setSearchQuery (str '' general '') initial)))
       = asciiToLowerCase (str ''General'')
   \<and> scoreItem asciiToLowerCase (trim (searchQuery (setSearchQuery (str '' general '') initial)))
        (str ''Fever'') = Some (str ''Fever'', 0)
   \<and> (\<exists>shown. displayedCategories asciiToLowerCase (setSearchQuery (str '' general '') initial)
          = Some shown
        \<and> (str ''General'', [str ''Fever'', str ''Fatigue'', str ''Chills'', str ''Weakness'',
             str ''Dizziness'', str ''Insomnia'', str ''Weight loss'', str ''Night sweats'',
             str ''Sweating'']) \<in> set shown)"
proof -
  let ?st = "setSearchQuery (str '' general '') initial"
  have q: "trim (searchQuery ?st) = str ''general''"
    by (simp add: setSearchQuery_def trim_padded_general)
  have a: "isActive ?st (str ''General'')"
    by (simp add: isActive_def setSearchQuery_def initial_def set_has_def)
  have e: "asciiToLowerCase (trim (searchQuery ?st)) = asciiToLowerCase (str ''General'')"
    by (simp only: q) (simp add: asciiToLowerCase_def str_def)
  have z: "scoreItem asciiToLowerCase (trim (searchQuery ?st)) (str ''Fever'') = Some (str ''Fever'', 0)"
    by (simp only: q scoreItem_Fever_general)
  show ?thesis
    using displayedCategories_exact_category_name [OF General_in_CATEGORIES a e] a e z
    by (intro conjI) assumption+
qed

text \<open>
  Claim C7. After any sequence of clicks on category chips, starting from the initial
  state, the active categories are not empty. The next click on a chip gives: the
  sentinel alone for the chip \<open>All\<close>; the clicked category alone when the sentinel was
  active; the sentinel alone when the clicked category was the only active one;
  otherwise the selection without the clicked category when it was active, and with it
  when it was not.
\<close>

theorem toggleCategory_never_empty:
  "activeCategories (toggleCategories cats initial) \<noteq> []
   \<and> activeCategories (toggleCategory cat (toggleCategories cats initial)) =
       (let active = activeCategories (toggleCategories cats initial) in
        if cat = str ''All'' then [str ''All'']
        else if set_has active (str ''All'') then [cat]
        else if set active = {cat} then [str ''All'']
        else if set_has active cat then set_delete active cat
        else set_add active cat)"
proof -
  let ?active = "activeCategories (toggleCategories cats initial)"
  have s: "settled ?active" by (rule settled_reachable)
  have ne: "?active \<noteq> []" using s by (auto simp: settled_def)
  have "activeCategories (toggleCategory cat (toggleCategories cats initial)) =
        (if cat = str ''All'' then [str ''All'']
        else if set_has ?active (str ''All'') then [cat]
        else if set ?active = {cat} then [str ''All'']
        else if set_has ?active cat then set_delete ?active cat
        else set_add ?active cat)"
  proof (cases "?active = [str ''All'']")
    case True
    then show ?thesis by (simp add: toggleCategory_active set_has_def)
  next
    case False
    then have no: "str ''All'' \<notin> set ?active" using s by (simp add: settled_def)
    show ?thesis
    proof (cases "set ?active = {cat}")
      case True
      then show ?thesis using no
        by (simp add: toggleCategory_active set_has_def removeAll_single Let_def)
    next
      case False
      have "cat \<in> set ?active \<Longrightarrow> removeAll cat ?active \<noteq> []"
      proof
        assume "cat \<in> set ?active" "removeAll cat ?active = []"
        then have "set ?active - {cat} = {}" by (metis set_empty set_removeAll)
        then show False using False \<open>cat \<in> set ?active\<close> by auto
      qed
      then show ?thesis using no False
        by (auto simp add: toggleCategory_active set_has_def set_delete_def set_add_def Let_def)
    qed
  qed
  then show ?thesis using ne by (simp add: Let_def)
qed

text \<open>
  Claim C7 at concrete inputs: \<open>Skin\<close> clicked twice, \<open>Pain\<close> clicked in the initial
  state, and \<open>All\<close> clicked after \<open>Skin\<close>.
\<close>

theorem toggleCategory_never_empty_witness:
  "activeCategories (toggleCategories [str ''Skin''] initial) = [str ''Skin'']
   \<and> activeCategories (toggleCategory (str ''Skin'') (toggleCategories [str ''Skin''] initial))
       = [str ''All'']
   \<and> activeCategories (toggleCategory (str ''Pain'') (toggleCategories [] initial)) = [str ''Pain'']
   \<and> activeCategories (toggleCategory (str ''All'') (toggleCategories [str ''Skin''] initial))
       = [str ''All'']"
proof -
  have s: "activeCategories (toggleCategories [str ''Skin''] initial) = [str ''Skin'']"
    by (simp add: toggleCategories_def toggleCategory_active initial_def str_inject Let_def)
  have i: "activeCategories (toggleCategories [] initial) = [str ''All'']"
    by (simp add: toggleCategories_def initial_def)
  show ?thesis
    using toggleCategory_never_empty [of "[str ''Skin'']" "str ''Skin''"]
      toggleCategory_never_empty [of "[]" "str ''Pain''"]
      toggleCategory_never_empty [of "[str ''Skin'']" "str ''All''"]
    by (simp add: s i Let_def set_has_def str_inject)
qed

text \<open>
  Claim C8. When the lower-cased query is neither equal to the lower-cased candidate, nor
  a prefix of it, nor contained in it: the score is 0 for a query of at most 2 code
  units; for a longer query the score is 50 minus 10 times the edit distance between
  query and candidate when that distance is within the tolerance (1 for a query of at
  most 5 code units, 2 otherwise), and 0 beyond the tolerance.
\<close>

theorem getMatchScore_fuzzy_tier:
  assumes "toLowerCase text \<noteq> toLowerCase query"
    and "\<not> startsWith (toLowerCase text) (toLowerCase query)"
    and "\<not> includes_js (toLowerCase text) (toLowerCase query)"
  shows "getMatchScore toLowerCase text query = Some
    (if length (toLowerCase query) \<le> 2 then 0
     else if edit_distance (toLowerCase query) (toLowerCase text)
               \<le> (if length (toLowerCase query) \<le> 5 then 1 else 2)
       then 50 - 10 * int (edit_distance (toLowerCase query) (toLowerCase text))
       else 0)"
  using assms
  by (simp add: getMatchScore_spec spec_score_def Let_def startsWith_iff includes_js_iff)

text \<open>
  Claim C8 at a concrete input: the query \<open>fevr\<close> against \<open>Fever\<close>, edit distance 1,
  score 40.
\<close>

theorem getMatchScore_fuzzy_tier_witness:
  "asciiToLowerCase (str ''Fever'') \<noteq> asciiToLowerCase (str ''fevr'')
   \<and> \<not> startsWith (asciiToLowerCase (str ''Fever'')) (asciiToLowerCase (str ''fevr''))
   \<and> \<not> includes_js (asciiToLowerCase (str ''Fever'')) (asciiToLowerCase (str ''fevr''))
   \<and> edit_distance (asciiToLowerCase (str ''fevr'')) (asciiToLowerCase (str ''Fever'')) = 1
   \<and> getMatchScore asciiToLowerCase (str ''Fever'') (str ''fevr'') = Some 40"
proof -
  have 1: "asciiToLowerCase (str ''Fever'') \<noteq> asciiToLowerCase (str ''fevr'')"
    by (simp add: lower_Fever lower_fevr str_inject)
  have 2: "\<not> startsWith (asciiToLowerCase (str ''Fever'')) (asciiToLowerCase (str ''fevr''))"
    by (simp only: lower_Fever lower_fevr) (simp add: str_def)
  have 3: "\<not> includes_js (asciiToLowerCase (str ''Fever'')) (asciiToLowerCase (str ''fevr''))"
    by (simp only: lower_Fever lower_fevr) (simp add: str_def)
  have 4: "length (str ''fevr'') = 4" by (simp add: str_def)
  show ?thesis
    using getMatchScore_fuzzy_tier [of asciiToLowerCase "str ''Fever''" "str ''fevr''", OF 1 2 3] 1 2 3
    by (simp add: lower_Fever lower_fevr distance_fevr 4)
qed

text \<open>
  Claim C9. \<open>levenshteinDistance\<close>, \<open>getMatchScore\<close> and \<open>displayedCategories\<close> return a
  value for all strings, every lower-casing function and every state of the selector:
  no array read of the source falls outside what was written. The value may be the
  empty list, as at the concrete input below.
\<close>

theorem displayedCategories_never_throws:
  "(\<exists>d. levenshteinDistance a b = Some d)
   \<and> (\<exists>s. getMatchScore toLowerCase text query = Some s)
   \<and> (\<exists>shown. displayedCategories toLowerCase st = Some shown)"
  by (simp add: levenshteinDistance_correct getMatchScore_spec displayedCategories_visible)

text \<open>
  Claim C9 at concrete inputs: an empty string against \<open>fever\<close>, two empty strings, and
  the query \<open>xyz123\<close> with the chip \<open>Pain\<close> active, where nothing is displayed.
\<close>

theorem displayedCategories_never_throws_witness:
  "(\<exists>d. levenshteinDistance [] (str ''fever'') = Some d)
   \<and> (\<exists>s. getMatchScore asciiToLowerCase [] [] = Some s)
   \<and> (\<exists>shown. displayedCategories asciiToLowerCase
          (setSearchQuery (str ''xyz123'') (toggleCategory (str ''Pain'') initial)) = Some shown)
   \<and> displayedCategories asciiToLowerCase
          (setSearchQuery (str ''xyz123'') (toggleCategory (str ''Pain'') initial)) = Some []"
  using displayedCategories_never_throws
    [of "[]" "str ''fever''" asciiToLowerCase "[]" "[]"
        "setSearchQuery (str ''xyz123'') (toggleCategory (str ''Pain'') initial)"]
    shown_xyz123_in_Pain
  by simp

text \<open>
  Claim C10. Every match score is one of 0, 30, 40, 60, 80 and 100: the fuzzy tier is
  reached only for different lower-cased strings, whose edit distance is not 0, and it
  admits a distance of at most 2.
\<close>

theorem getMatchScore_values:
  "\<exists>s. getMatchScore toLowerCase text query = Some s \<and> s \<in> {0, 30, 40, 60, 80, 100}"
  using spec_score_values [of toLowerCase "text" query] by (simp only: getMatchScore_spec) blast

text \<open>Claim C10 at a concrete input.\<close>

theorem getMatchScore_values_witness:
  "\<exists>s. getMatchScore asciiToLowerCase (str ''Fever'') (str ''fevr'') = Some s
        \<and> s \<in> {0, 30, 40, 60, 80, 100}"
  using getMatchScore_values [of asciiToLowerCase "str ''Fever''" "str ''fevr''"] by simp

end
